theory Spec2Isabelle
  imports Main
begin

section \<open>Go values shared by the model\<close>

text \<open>
  A Go \<open>error\<close> is a message, possibly wrapping an earlier error (\<open>g.Error(err, msg)\<close>).
  A nil error is \<open>None\<close>. A run-time panic (a nil pointer dereference) is recorded as
  the value \<open>Panic\<close>, so that it is a branch of the model like every other exit.
\<close>

datatype error = Error string | Wrap error string | Panic string

subsection \<open>Strings (package \<open>strings\<close>, byte strings)\<close>

fun HasPrefix :: "string \<Rightarrow> string \<Rightarrow> bool" where
  "HasPrefix s p = (take (length p) s = p)"

fun TrimPrefix :: "string \<Rightarrow> string \<Rightarrow> string" where
  "TrimPrefix s p = (if HasPrefix s p then drop (length p) s else s)"

fun Contains :: "string \<Rightarrow> string \<Rightarrow> bool" where
  "Contains [] sub = (sub = [])"
| "Contains (c # cs) sub = (HasPrefix (c # cs) sub \<or> Contains cs sub)"

text \<open>\<open>strings.Replace(s, old, new, 1)\<close>: the first occurrence only.\<close>

fun Replace1 :: "string \<Rightarrow> string \<Rightarrow> string \<Rightarrow> string" where
  "Replace1 [] old new = (if old = [] then new else [])"
| "Replace1 (c # cs) old new =
     (if HasPrefix (c # cs) old then new @ drop (length old) (c # cs)
      else c # Replace1 cs old new)"

text \<open>\<open>strings.ToUpper\<close> and \<open>strings.ToLower\<close> on the ASCII letters.\<close>

definition upper_char :: "char \<Rightarrow> char" where
  "upper_char c =
     (let n = (of_char c :: nat) in if 97 \<le> n \<and> n \<le> 122 then char_of (n - 32) else c)"

definition lower_char :: "char \<Rightarrow> char" where
  "lower_char c =
     (let n = (of_char c :: nat) in if 65 \<le> n \<and> n \<le> 90 then char_of (n + 32) else c)"

definition ToUpper :: "string \<Rightarrow> string" where
  "ToUpper s = map upper_char s"

definition ToLower :: "string \<Rightarrow> string" where
  "ToLower s = map lower_char s"

text \<open>\<open>cast.ToBool\<close> of a string is \<open>strconv.ParseBool\<close> with the error dropped.\<close>

definition cast_ToBool :: "string \<Rightarrow> bool" where
  "cast_ToBool s = (s \<in> set [''1'', ''t'', ''T'', ''TRUE'', ''true'', ''True''])"

section \<open>Configuration (config.go)\<close>

type_synonym Mode = string

definition TruncateMode :: Mode where "TruncateMode = ''truncate''"
definition FullRefreshMode :: Mode where "FullRefreshMode = ''full-refresh''"
definition IncrementalMode :: Mode where "IncrementalMode = ''incremental''"
definition SnapshotMode :: Mode where "SnapshotMode = ''snapshot''"
definition BackfillMode :: Mode where "BackfillMode = ''backfill''"

text \<open>The connection kinds of package \<open>dbio\<close> that the code compares against.\<close>

datatype dbio_Type =
  TypeDbOracle | TypeDbSnowflake | TypeDbDuckDb | TypeDbClickhouse | TypeDbBigTable
  | TypeOther string

text \<open>
  \<open>Source.PrimaryKeyI\<close> has type \<open>any\<close>; \<open>castPrimaryKey\<close> switches on its dynamic
  type. \<open>PkAnys\<close> holds the \<open>cast.ToString\<close> image of each element of a \<open>[]any\<close>;
  \<open>PkNil\<close> stands for nil and for every type the switch does not list.
\<close>

datatype PrimaryKeyI =
  PkNil | PkStrings "string list" | PkString string | PkStringPtr string | PkAnys "string list"

fun castPrimaryKey :: "PrimaryKeyI \<Rightarrow> string list" where
  "castPrimaryKey (PkStrings pkV) = pkV"
| "castPrimaryKey (PkString pkV) = [pkV]"
| "castPrimaryKey (PkStringPtr pkV) = [pkV]"
| "castPrimaryKey (PkAnys pkV) = pkV"
| "castPrimaryKey PkNil = []"

record SourceOptions =
  Range :: "string option"

record TargetOptions =
  AddNewColumns :: "bool option"
  AdjustColumnType :: "bool option"
  TableTmp :: string
  TableDDL :: string
  PreSQL :: string
  PostSQL :: string

record ConnInfo =
  Conn_Name :: string
  Conn_Type :: dbio_Type

record Config =
  Mode :: Mode
  Source_Stream :: string
  Source_Select :: "string list"
  Source_PrimaryKeyI :: PrimaryKeyI
  Source_UpdateKey :: string
  Source_Options :: "SourceOptions option"
  Target_Object :: string
  Target_Options :: "TargetOptions option"
  Target_TmpTableCreated :: bool
  Options_StdIn :: bool
  Options_StdOut :: bool
  SrcConn :: ConnInfo
  TgtConn :: ConnInfo
  MetadataLoadedAt :: bool

definition PrimaryKey :: "Config \<Rightarrow> string list" where
  "PrimaryKey cfg = castPrimaryKey (Source_PrimaryKeyI cfg)"

section \<open>Collaborators that are not part of the modelled files\<close>

record Table =
  Tbl_Schema :: string
  Tbl_Name :: string

record Column =
  Col_Name :: string
  Col_Type :: string

type_synonym row = "string list"

text \<open>
  Pure helpers of other packages, taken as parameters: table-name parsing and printing,
  the casing rule of a store, the kind predicates of \<open>dbio.Type\<close>, the template
  renderers \<open>g.R\<close> and \<open>g.Rm\<close>, \<open>getSQLText\<close>, the quote character of a store and
  the name of the loaded-at column. \<open>g_Error_nil msg\<close> is what \<open>g.Error(nil, msg)\<close>
  returns.
\<close>

record Lib =
  ParseTableName :: "string \<Rightarrow> dbio_Type \<Rightarrow> error + Table"
  FullName :: "Table \<Rightarrow> string"
  DBNameUpperCase :: "dbio_Type \<Rightarrow> bool"
  IsFile :: "dbio_Type \<Rightarrow> bool"
  IsDb :: "dbio_Type \<Rightarrow> bool"
  IsUnknown :: "dbio_Type \<Rightarrow> bool"
  g_Error_nil :: "string \<Rightarrow> error option"
  g_R :: "string \<Rightarrow> (string \<times> string) list \<Rightarrow> string"
  g_Rm :: "string \<Rightarrow> (string \<times> string) list \<Rightarrow> string"
  getSQLText :: "string \<Rightarrow> error + string"
  GetQualifierQuote :: "dbio_Type \<Rightarrow> string"
  slingLoadedAtColumn :: string

text \<open>
  The process environment during one call: the environment variables read, the two
  one-character strings \<open>g.RandString\<close> draws, and what \<open>Config.GetFormatMap\<close> returns
  before the pre-SQL and before the post-SQL.
\<close>

record Env =
  SLING_CLI :: string
  SLING_ALLOW_EMPTY_TABLES :: string
  ERROR_ON_CHECKSUM_FAILURE :: string
  RandString_numeric :: string
  RandString_alnum :: string
  GetFormatMap_pre :: "error + (string \<times> string) list"
  GetFormatMap_post :: "error + (string \<times> string) list"

text \<open>
  The dataflow as \<open>WriteToDb\<close> reads it: its columns, its buffered sample rows, whether
  \<open>Pause\<close> succeeds, \<open>Count()\<close> after the import and \<open>Err()\<close> at the end.
\<close>

record Dataflow =
  df_Columns :: "Column list"
  df_Buffer :: "row list"
  df_Pause :: bool
  df_Count :: nat
  df_Err :: "error option"

text \<open>
  The target connection. \<open>WriteToDb\<close> has no loop, so every call site runs at most once
  in a call, and the connection is described by the answer it gives at each call site
  (the line of \<open>task_run_write.go\<close> is in the field's comment). Row counts are
  \<open>uint64\<close> in the code; they are only compared, never computed with, and are naturals
  here.
\<close>

record Conn =
  GetType :: dbio_Type
  truncate_table_template :: string                  \<comment> \<open>439, \<open>GetTemplateValue\<close>\<close>
  r_DropTable_tmp :: "error option"                  \<comment> \<open>136\<close>
  r_createTable_tmp :: "bool \<times> error option"        \<comment> \<open>165\<close>
  r_BeginContext_tmp :: "error option"               \<comment> \<open>187\<close>
  r_BulkImportFlow :: "nat \<times> error option"          \<comment> \<open>253\<close>
  r_GetCount :: nat                                  \<comment> \<open>267, the error is dropped\<close>
  r_ExecMulti_pre :: "error option"                  \<comment> \<open>291\<close>
  r_CompareChecksums :: "error option"               \<comment> \<open>311\<close>
  r_BeginContext_final :: "error option"             \<comment> \<open>329\<close>
  r_DropTable_final :: "error option"                \<comment> \<open>340\<close>
  r_createTable_final :: "bool \<times> error option"      \<comment> \<open>353\<close>
  r_AddMissingColumns :: "bool \<times> error option"      \<comment> \<open>373\<close>
  r_pullTargetTableColumns_1 :: "error option"       \<comment> \<open>377\<close>
  r_pullTargetTableColumns_2 :: "error option"       \<comment> \<open>386\<close>
  r_OptimizeTable :: "bool \<times> error option"          \<comment> \<open>391\<close>
  r_SwapTable :: "error option"                      \<comment> \<open>416\<close>
  r_DropTable_swapped :: "error option"              \<comment> \<open>422\<close>
  r_insertFromTemp :: "error option"                 \<comment> \<open>431 and 450\<close>
  r_Exec_truncate :: "error option"                  \<comment> \<open>442\<close>
  r_Upsert :: "int \<times> error option"                  \<comment> \<open>462\<close>
  r_ExecMulti_post :: "error option"                 \<comment> \<open>490\<close>
  r_Commit :: "error option"                         \<comment> \<open>497\<close>

datatype IsolationLevel = LevelDefault | LevelSerializable

record TxOptions =
  Isolation :: IsolationLevel
  ReadOnly :: bool

text \<open>
  What a call does to the outside: the calls on the target connection, on the dataflow
  and on the task (progress messages, the progress bar, the cleanup list), in order,
  with their arguments. \<open>InsertFromTemp tmp final\<close> is \<open>insertFromTemp(cfg, tgtConn)\<close>,
  which reads both names from \<open>cfg\<close>. \<open>AddCleanupTask tmp\<close> registers the closure that
  drops \<open>tmp\<close> when the task's cleanup runs.
\<close>

datatype event =
    DropTable string
  | Pause
  | Unpause
  | CreateTableIfNotExists string string
  | AddCleanupTask string
  | BeginContext "TxOptions option"
  | BulkImportFlow string
  | Rollback
  | Commit
  | PBarFinish
  | GetCount string
  | SetProgress string
  | ExecMulti string
  | CompareChecksums string
  | AddMissingColumns Table
  | PullTargetTableColumns bool
  | OptimizeTable Table
  | SwapTable string string
  | InsertFromTemp string string
  | Exec string
  | Upsert string string "string list"

section \<open>Sequencing with early return\<close>

text \<open>
  A piece of the function emits events and then either returns from the function (the
  named results \<open>cnt\<close> and \<open>err\<close>, and the configuration as mutated so far) or hands a
  value to the code after it.
\<close>

type_synonym ret = "nat \<times> error option \<times> Config"
type_synonym 'a step = "event list \<times> (ret + 'a)"

definition emit :: "event list \<Rightarrow> 'a step \<Rightarrow> 'a step" where
  "emit es m = (es @ fst m, snd m)"

definition returns :: "nat \<Rightarrow> error option \<Rightarrow> Config \<Rightarrow> 'a step" where
  "returns c e cfg = ([], Inl (c, e, cfg))"

definition proceed :: "'a \<Rightarrow> 'a step" where
  "proceed a = ([], Inr a)"

definition andThen :: "'a step \<Rightarrow> ('a \<Rightarrow> 'b step) \<Rightarrow> 'b step" where
  "andThen m f = (case snd m of Inl r \<Rightarrow> (fst m, Inl r) | Inr a \<Rightarrow> emit (fst m) (f a))"

text \<open>A \<open>defer\<close>red call runs when the function exits, whichever way it exits.\<close>

definition deferred :: "event \<Rightarrow> 'a step \<Rightarrow> 'a step" where
  "deferred e m = (fst m @ [e], snd m)"

section \<open>\<open>WriteToDb\<close> (task_run_write.go, lines 96 to 505)\<close>

definition sourceIsFile :: "Lib \<Rightarrow> Config \<Rightarrow> bool" where
  "sourceIsFile L cfg = (Options_StdIn cfg \<or> IsFile L (Conn_Type (SrcConn cfg)))"

text \<open>
  Lines 107 to 129: the name of the temp table when the user gave none. The result is
  \<open>tableTmp.FullName()\<close> after the suffix was appended to \<open>tableTmp.Name\<close>.
\<close>

definition tmp_table :: "Lib \<Rightarrow> Env \<Rightarrow> dbio_Type \<Rightarrow> Table \<Rightarrow> Table" where
  "tmp_table L E ty tableTmp =
     (let suffix = (if DBNameUpperCase L ty then ''_TMP'' else ''_tmp'');
          tableTmp1 =
            (if ty = TypeDbOracle \<and> length (Tbl_Name tableTmp) > 24
             then tableTmp\<lparr>Tbl_Name := take 24 (Tbl_Name tableTmp)\<rparr> else tableTmp);
          suffix2 = RandString_numeric E @ RandString_alnum E;
          suffix2' = (if DBNameUpperCase L ty then ToUpper suffix2 else ToLower suffix2);
          suffix' = (if ty = TypeDbOracle then suffix @ suffix2' else suffix)
      in tableTmp1\<lparr>Tbl_Name := Tbl_Name tableTmp1 @ suffix'\<rparr>)"

definition tmp_table_name :: "Lib \<Rightarrow> Env \<Rightarrow> dbio_Type \<Rightarrow> string \<Rightarrow> error + string" where
  "tmp_table_name L E ty targetTable =
     (case ParseTableName L targetTable ty of
        Inl e \<Rightarrow> Inl (Wrap e ''no not parse object table name'')
      | Inr tableTmp \<Rightarrow> Inr (FullName L (tmp_table L E ty tableTmp)))"

text \<open>
  Lines 135 to 262: drop and create the temp table, open the transaction, import the
  dataflow. Column casing and type inference (148 to 157) change only the dataflow's
  columns. The two column callbacks (196 to 249) are run by the dataflow during
  \<open>BulkImportFlow\<close>, so what they do is part of that call's answer. The step hands on
  the imported row count and the configuration.
\<close>

definition stage ::
  "Lib \<Rightarrow> Env \<Rightarrow> Config \<Rightarrow> TargetOptions \<Rightarrow> Dataflow \<Rightarrow> Conn \<Rightarrow> (nat \<times> Config) step" where
  "stage L E cfg opts df conn =
     (let targetTable = Target_Object cfg; tmp = TableTmp opts in
      emit [DropTable tmp]
      (case r_DropTable_tmp conn of
         Some e \<Rightarrow> returns 0 (Some (Wrap e (''could not drop table '' @ tmp))) cfg
       | None \<Rightarrow>
      emit [Pause]
      (if \<not> df_Pause df
       then returns 0 (g_Error_nil L ''could not pause streams to infer columns'') cfg
       else if TableDDL opts \<noteq> [] \<and> \<not> Contains (TableDDL opts) targetTable
       then returns 0 (Some (Error
         ''The Table DDL provided needs to contains the exact object table name: %s'')) cfg
       else
      emit [CreateTableIfNotExists tmp (Replace1 (TableDDL opts) targetTable tmp)]
      (case snd (r_createTable_tmp conn) of
         Some e \<Rightarrow> returns 0 (Some (Wrap e (''could not create temp table '' @ tmp))) cfg
       | None \<Rightarrow>
      (let cfg1 = cfg\<lparr>Target_TmpTableCreated := True\<rparr> in
      emit [AddCleanupTask tmp, BeginContext None]
      (case r_BeginContext_tmp conn of
         Some e \<Rightarrow>
           returns 0 (Some (Wrap e ''could not open transaction to write to temp table'')) cfg1
       | None \<Rightarrow>
      (case AddNewColumns opts of
         None \<Rightarrow> returns 0 (Some (Panic ''nil pointer dereference'')) cfg1
       | Some _ \<Rightarrow>
      emit [Unpause, SetProgress ''streaming data'', BulkImportFlow tmp]
      (case snd (r_BulkImportFlow conn) of
         Some e \<Rightarrow>
           emit [Rollback]
           (returns (fst (r_BulkImportFlow conn))
              (Some (Wrap e
                 (if cast_ToBool (SLING_CLI E) \<and> sourceIsFile L cfg1
                  then ''could not insert into %s.''
                  else ''could not insert into '' @ tmp))) cfg1)
       | None \<Rightarrow> proceed (fst (r_BulkImportFlow conn), cfg1)))))))))"

text \<open>Lines 264 to 274: commit the import and compare the counts.\<close>

definition verify :: "Config \<Rightarrow> TargetOptions \<Rightarrow> Dataflow \<Rightarrow> Conn \<Rightarrow> nat \<Rightarrow> unit step" where
  "verify cfg opts df conn cnt =
     emit [Commit, PBarFinish, GetCount (TableTmp opts)]
     (let tCnt = r_GetCount conn in
      if cnt \<noteq> tCnt
      then returns cnt (Some (Error
        ''inserted in temp table but table count (%d) != stream count (%d). Records missing. Aborting'')) cfg
      else if tCnt = 0 \<and> length (df_Buffer df) > 0
      then returns cnt (Some (Error
        ''Loaded 0 records while sample data has %d records. Exiting.'')) cfg
      else proceed ())"

text \<open>Lines 276 to 296: the pre-SQL.\<close>

definition pre_sql :: "Lib \<Rightarrow> Env \<Rightarrow> Config \<Rightarrow> TargetOptions \<Rightarrow> Conn \<Rightarrow> nat \<Rightarrow> unit step" where
  "pre_sql L E cfg opts conn cnt =
     (if PreSQL opts \<noteq> [] then
        emit [SetProgress ''executing pre-sql'']
        (case getSQLText L (PreSQL opts) of
           Inl e \<Rightarrow> returns cnt (Some (Wrap e ''could not get pre-sql body'')) cfg
         | Inr preSQL \<Rightarrow>
        (case GetFormatMap_pre E of
           Inl e \<Rightarrow> returns cnt (Some (Wrap e ''could not get format map for pre-sql'')) cfg
         | Inr fMap \<Rightarrow>
        emit [ExecMulti (g_Rm L preSQL fMap)]
        (case r_ExecMulti_pre conn of
           Some e \<Rightarrow> returns cnt (Some (Wrap e ''could not execute pre-sql on target'')) cfg
         | None \<Rightarrow> proceed ())))
      else proceed ())"

text \<open>
  Lines 298 to 319: nothing to do for an empty stream; otherwise the checksum
  comparison. At line 300 \<open>err\<close> is nil: its last assignment is the successful
  \<open>BulkImportFlow\<close> or the successful \<open>getSQLText\<close> (the later \<open>err\<close> of the pre-SQL block
  is a new variable of that block).
\<close>

definition checksum :: "Env \<Rightarrow> Config \<Rightarrow> TargetOptions \<Rightarrow> Dataflow \<Rightarrow> Conn \<Rightarrow> nat \<Rightarrow> unit step" where
  "checksum E cfg opts df conn cnt =
     (if cnt = 0 \<and> \<not> cast_ToBool (SLING_ALLOW_EMPTY_TABLES E) then returns cnt None cfg
      else if cnt > 0 then
        (if df_Count df \<le> 10000 then
           emit [CompareChecksums (TableTmp opts)]
           (case r_CompareChecksums conn of
              Some e \<Rightarrow>
                if ERROR_ON_CHECKSUM_FAILURE E \<noteq> [] then returns cnt (Some e) cfg
                else proceed ()
            | None \<Rightarrow> proceed ())
         else proceed ())
      else proceed ())"

text \<open>Lines 322 to 328: the options of the transaction on the final table.\<close>

definition txOptions :: "dbio_Type \<Rightarrow> TxOptions" where
  "txOptions ty =
     (if ty = TypeDbSnowflake \<or> ty = TypeDbDuckDb
      then \<lparr>Isolation = LevelDefault, ReadOnly = False\<rparr>
      else if ty = TypeDbClickhouse then \<lparr>Isolation = LevelDefault, ReadOnly = False\<rparr>
      else \<lparr>Isolation = LevelSerializable, ReadOnly = False\<rparr>)"

text \<open>
  Lines 337 to 409: drop the final table under full-refresh, create it when absent, and
  bring an existing table's columns in line. The updates of the dataflow's column types
  (396 to 405) change only the dataflow.
\<close>

definition prepare_final ::
  "Lib \<Rightarrow> Config \<Rightarrow> TargetOptions \<Rightarrow> Conn \<Rightarrow> nat \<Rightarrow> unit step" where
  "prepare_final L cfg opts conn cnt =
     (let targetTable = Target_Object cfg;
          adjustColumnType = (AdjustColumnType opts = Some True) in
      andThen
        (if Mode cfg = FullRefreshMode then
           emit [DropTable targetTable]
           (case r_DropTable_final conn of
              Some e \<Rightarrow> returns cnt (Some (Wrap e (''could not drop table '' @ targetTable))) cfg
            | None \<Rightarrow> emit [SetProgress (''dropped table '' @ targetTable)] (proceed ()))
         else proceed ())
      (\<lambda>_.
      emit [CreateTableIfNotExists targetTable (TableDDL opts)]
      (case snd (r_createTable_final conn) of
         Some e \<Rightarrow> returns cnt (Some (Wrap e (''could not create table '' @ targetTable))) cfg
       | None \<Rightarrow>
      (let created = fst (r_createTable_final conn) in
      emit (if created then [SetProgress (''created table '' @ targetTable)] else [])
      (case ParseTableName L targetTable (GetType conn) of
         Inl e \<Rightarrow> returns cnt (Some (Wrap e ''could not get table name for optimization'')) cfg
       | Inr table \<Rightarrow>
      (if \<not> created \<and> Mode cfg \<noteq> FullRefreshMode then
         andThen
           (case AddNewColumns opts of
              None \<Rightarrow> returns cnt (Some (Panic ''nil pointer dereference'')) cfg
            | Some False \<Rightarrow> proceed ()
            | Some True \<Rightarrow>
                emit [AddMissingColumns table]
                (case snd (r_AddMissingColumns conn) of
                   Some e \<Rightarrow> returns cnt (Some (Wrap e ''could not add missing columns'')) cfg
                 | None \<Rightarrow>
                     if fst (r_AddMissingColumns conn) then
                       emit [PullTargetTableColumns True]
                       (case r_pullTargetTableColumns_1 conn of
                          Some e \<Rightarrow>
                            returns cnt (Some (Wrap e ''could not get table columns'')) cfg
                        | None \<Rightarrow> proceed ())
                     else proceed ()))
         (\<lambda>_.
           if adjustColumnType then
             emit [PullTargetTableColumns False]
             (case r_pullTargetTableColumns_2 conn of
                Some e \<Rightarrow> returns cnt
                  (Some (Wrap e ''could not get table columns for optimization'')) cfg
              | None \<Rightarrow>
             emit [OptimizeTable table]
             (case snd (r_OptimizeTable conn) of
                Some e \<Rightarrow> returns cnt (Some (Wrap e ''could not optimize table schema'')) cfg
              | None \<Rightarrow> proceed ()))
           else proceed ())
       else proceed ()))))))"

text \<open>Lines 411 to 472: put the data from the temp table into the final table.\<close>

definition put_data :: "Lib \<Rightarrow> Config \<Rightarrow> TargetOptions \<Rightarrow> Conn \<Rightarrow> nat \<Rightarrow> unit step" where
  "put_data L cfg opts conn cnt =
     (let targetTable = Target_Object cfg; tmp = TableTmp opts in
      if cnt = 0 then emit [SetProgress ''0 rows inserted. Nothing to do.''] (proceed ())
      else if Mode cfg = ''drop (need to optimize temp table in place)'' then
        emit [SwapTable tmp targetTable]
        (case r_SwapTable conn of
           Some e \<Rightarrow> returns 0 (Some (Wrap e ''could not swap tables %s to %s'')) cfg
         | None \<Rightarrow>
        emit [DropTable tmp]
        (case r_DropTable_swapped conn of
           Some e \<Rightarrow> returns cnt (Some (Wrap e (''could not drop table '' @ tmp))) cfg
         | None \<Rightarrow> emit [SetProgress (''dropped old table of '' @ targetTable)] (proceed ())))
      else if (Mode cfg = IncrementalMode \<and> length (PrimaryKey cfg) = 0)
              \<or> Mode cfg = SnapshotMode \<or> Mode cfg = FullRefreshMode then
        emit [InsertFromTemp tmp targetTable]
        (case r_insertFromTemp conn of
           Some e \<Rightarrow> returns 0 (Some (Wrap e ''Could not insert from temp'')) cfg
         | None \<Rightarrow> proceed ())
      else if Mode cfg = TruncateMode then
        emit [Exec (g_R L (truncate_table_template conn) [(''table'', targetTable)])]
        (case r_Exec_truncate conn of
           Some e \<Rightarrow>
             returns cnt (Some (Wrap e (''Could not truncate table: '' @ targetTable))) cfg
         | None \<Rightarrow>
        emit [SetProgress (''truncated table '' @ targetTable), InsertFromTemp tmp targetTable]
        (case r_insertFromTemp conn of
           Some e \<Rightarrow> returns 0 (Some (Wrap e ''Could not insert from temp'')) cfg
         | None \<Rightarrow> proceed ()))
      else if Mode cfg = IncrementalMode \<or> Mode cfg = BackfillMode then
        emit [Upsert tmp targetTable (PrimaryKey cfg)]
        (case snd (r_Upsert conn) of
           Some e \<Rightarrow> returns 0 (Some (Wrap e ''Could not incremental from temp'')) cfg
         | None \<Rightarrow> proceed ())
      else proceed ())"

text \<open>Lines 474 to 495: the post-SQL.\<close>

definition post_sql :: "Lib \<Rightarrow> Env \<Rightarrow> Config \<Rightarrow> TargetOptions \<Rightarrow> Conn \<Rightarrow> nat \<Rightarrow> unit step" where
  "post_sql L E cfg opts conn cnt =
     (if PostSQL opts \<noteq> [] then
        emit [SetProgress ''executing post-sql'']
        (case getSQLText L (PostSQL opts) of
           Inl e \<Rightarrow> returns cnt (Some (Wrap e
             (''Error executing Target.PostSQL. Could not get getSQLText for: '' @ PostSQL opts))) cfg
         | Inr postSQL \<Rightarrow>
        (case GetFormatMap_post E of
           Inl e \<Rightarrow> returns cnt (Some (Wrap e ''could not get format map for post-sql'')) cfg
         | Inr fMap \<Rightarrow>
        emit [ExecMulti (g_Rm L postSQL fMap)]
        (case r_ExecMulti_post conn of
           Some e \<Rightarrow> returns cnt (Some (Wrap e ''Error executing Target.PostSQL'')) cfg
         | None \<Rightarrow> proceed ())))
      else proceed ())"

text \<open>Lines 497 to 504: commit; the error returned is the dataflow's.\<close>

definition commit_final :: "Config \<Rightarrow> Dataflow \<Rightarrow> Conn \<Rightarrow> nat \<Rightarrow> unit step" where
  "commit_final cfg df conn cnt =
     emit [Commit]
     (case r_Commit conn of
        Some e \<Rightarrow> returns cnt (Some (Wrap e ''could not commit'')) cfg
      | None \<Rightarrow> returns cnt (df_Err df) cfg)"

text \<open>Lines 337 to 504: what runs inside the transaction on the final table.\<close>

definition in_final_tx ::
  "Lib \<Rightarrow> Env \<Rightarrow> Config \<Rightarrow> TargetOptions \<Rightarrow> Dataflow \<Rightarrow> Conn \<Rightarrow> nat \<Rightarrow> unit step" where
  "in_final_tx L E cfg opts df conn cnt =
     andThen (prepare_final L cfg opts conn cnt) (\<lambda>_.
     andThen (put_data L cfg opts conn cnt) (\<lambda>_.
     andThen (post_sql L E cfg opts conn cnt) (\<lambda>_.
     commit_final cfg df conn cnt)))"

text \<open>
  Lines 321 to 505: the transaction on the final table. \<open>defer tgtConn.Rollback()\<close> is
  registered once the transaction is open, so it runs at every exit after line 335,
  the successful one included.
\<close>

definition merge ::
  "Lib \<Rightarrow> Env \<Rightarrow> Config \<Rightarrow> TargetOptions \<Rightarrow> Dataflow \<Rightarrow> Conn \<Rightarrow> nat \<Rightarrow> unit step" where
  "merge L E cfg opts df conn cnt =
     emit [BeginContext (Some (txOptions (GetType conn)))]
     (case r_BeginContext_final conn of
        Some e \<Rightarrow> returns cnt
          (Some (Wrap e ''could not open transcation to write to final table'')) cfg
      | None \<Rightarrow> deferred Rollback (in_final_tx L E cfg opts df conn cnt))"

text \<open>
  Lines 99 to 133: no columns, the temp table's name, the default mode. The step hands
  on the configuration as mutated (\<open>TableTmp\<close> and \<open>Mode\<close> are written back into
  \<open>cfg\<close>) and its target options.
\<close>

definition preamble ::
  "Lib \<Rightarrow> Env \<Rightarrow> Config \<Rightarrow> Dataflow \<Rightarrow> Conn \<Rightarrow> (Config \<times> TargetOptions) step" where
  "preamble L E cfg df conn =
     (if length (df_Columns df) = 0
      then returns 0 (Some (Error ''no stream columns detected'')) cfg
      else
        (case Target_Options cfg of
           None \<Rightarrow> returns 0 (Some (Panic ''nil pointer dereference'')) cfg
         | Some opts0 \<Rightarrow>
        (case (if TableTmp opts0 = []
               then tmp_table_name L E (GetType conn) (Target_Object cfg)
               else Inr (TableTmp opts0)) of
           Inl e \<Rightarrow> returns 0 (Some e) cfg
         | Inr tmp \<Rightarrow>
        (let opts = opts0\<lparr>TableTmp := tmp\<rparr>;
             cfg1 = cfg\<lparr>Target_Options := Some opts,
                        Mode := (if Mode cfg = [] then FullRefreshMode else Mode cfg)\<rparr>
         in proceed (cfg1, opts)))))"

text \<open>Lines 264 to 505: everything after a successful import.\<close>

definition after_import ::
  "Lib \<Rightarrow> Env \<Rightarrow> Config \<Rightarrow> TargetOptions \<Rightarrow> Dataflow \<Rightarrow> Conn \<Rightarrow> nat \<Rightarrow> unit step" where
  "after_import L E cfg opts df conn cnt =
     andThen (verify cfg opts df conn cnt) (\<lambda>_.
     andThen (pre_sql L E cfg opts conn cnt) (\<lambda>_.
     andThen (checksum E cfg opts df conn cnt) (\<lambda>_.
     merge L E cfg opts df conn cnt)))"

record Result =
  cnt :: nat
  err :: "error option"
  trace :: "event list"
  cfg_out :: Config

text \<open>Every path of the function ends in a return; the second case is never taken.\<close>

definition finish :: "Config \<Rightarrow> unit step \<Rightarrow> Result" where
  "finish cfg m =
     (case snd m of
        Inl (c, e, cfg') \<Rightarrow> \<lparr>cnt = c, err = e, trace = fst m, cfg_out = cfg'\<rparr>
      | Inr _ \<Rightarrow> \<lparr>cnt = 0, err = None, trace = fst m, cfg_out = cfg\<rparr>)"

text \<open>
  The whole function. \<open>cfg\<close> and \<open>t.Config\<close> are the task's one configuration object.
  \<open>defer t.PBar.Finish()\<close> is the first statement, so it ends every trace.
\<close>

definition WriteToDb :: "Lib \<Rightarrow> Env \<Rightarrow> Config \<Rightarrow> Dataflow \<Rightarrow> Conn \<Rightarrow> Result" where
  "WriteToDb L E cfg df conn =
     finish cfg (deferred PBarFinish
       (andThen (preamble L E cfg df conn) (\<lambda>(cfg1, opts).
        andThen (stage L E cfg1 opts df conn) (\<lambda>(cnt, cfg2).
        after_import L E cfg2 opts df conn cnt))))"

text \<open>The events after the first occurrence of an event.\<close>

definition after_first :: "event \<Rightarrow> event list \<Rightarrow> event list" where
  "after_first e tr = drop 1 (dropWhile (\<lambda>x. x \<noteq> e) tr)"

definition begins_final :: "event \<Rightarrow> bool" where
  "begins_final e = (case e of BeginContext (Some _) \<Rightarrow> True | _ \<Rightarrow> False)"

section \<open>\<open>DetermineType\<close> (config.go, lines 211 to 325)\<close>

text \<open>\<open>strings.Split(s, sep)\<close> for a separator of one byte, and \<open>strings.Join\<close>.\<close>

fun Split :: "string \<Rightarrow> char \<Rightarrow> string list" where
  "Split [] sep = [[]]"
| "Split (x # xs) sep =
     (if x = sep then [] # Split xs sep
      else (case Split xs sep of [] \<Rightarrow> [[x]] | p # ps \<Rightarrow> (x # p) # ps))"

fun Join :: "string list \<Rightarrow> string \<Rightarrow> string" where
  "Join [] sep = []"
| "Join [x] sep = x"
| "Join (x # y # ys) sep = x @ sep @ Join (y # ys) sep"

datatype JobType =
  NoJobType | DbToDb | FileToDB | DbToFile | FileToFile | APIToDb | APIToFile | DbSQL

text \<open>Line 228: \<open>g.In(cfg.Mode, ...)\<close>.\<close>

definition validMode :: "Mode \<Rightarrow> bool" where
  "validMode m =
     (m \<in> set [FullRefreshMode, IncrementalMode, BackfillMode, SnapshotMode, TruncateMode])"

definition err_valid_mode :: error where
  "err_valid_mode =
     Error ''must specify valid mode: full-refresh, incremental, backfill, snapshot or truncate''"

definition err_incremental_keys :: error where
  "err_incremental_keys =
     Error (''must specify value for '' @ [CHR 0x27] @ ''update_key'' @ [CHR 0x27] @ '' and/or ''
       @ [CHR 0x27] @ ''primary_key'' @ [CHR 0x27] @ '' for incremental mode. See docs for more details: https://docs.slingdata.io/sling-cli/run/configuration'')"

definition err_backfill_keys :: error where
  "err_backfill_keys =
     Error (''must specify value for '' @ [CHR 0x27] @ ''update_key'' @ [CHR 0x27] @ '' and ''
       @ [CHR 0x27] @ ''primary_key'' @ [CHR 0x27] @ '' for backfill mode. See docs for more details: https://docs.slingdata.io/sling-cli/run/configuration'')"

definition err_backfill_range :: error where
  "err_backfill_range =
     Error ''must specify range (source.options.range or --range) for backfill mode. See docs for more details: https://docs.slingdata.io/sling-cli/run/configuration''"

definition err_backfill_range_value :: error where
  "err_backfill_range_value =
     Error ''must specify valid range value for backfill mode separated by one comma, for example `2021-01-01,2021-02-01`. See docs for more details: https://docs.slingdata.io/sling-cli/run/configuration''"

text \<open>
  Lines 234 to 265: the keys each mode needs. The result is the error returned, or the
  configuration with the defaults and flags the branch wrote.
\<close>

definition mode_keys :: "Lib \<Rightarrow> Config \<Rightarrow> error + Config" where
  "mode_keys L cfg =
     (if Mode cfg = IncrementalMode then
        (if Conn_Type (SrcConn cfg) = TypeDbBigTable then
           (let cfg1 = (if length (PrimaryKey cfg) = 0
                        then cfg\<lparr>Source_PrimaryKeyI := PkStrings [''_bigtable_key'']\<rparr> else cfg)
            in Inr (if Source_UpdateKey cfg1 = []
                    then cfg1\<lparr>Source_UpdateKey := ''_bigtable_timestamp''\<rparr> else cfg1))
         else if sourceIsFile L cfg \<and> Source_UpdateKey cfg = slingLoadedAtColumn L
         then Inr (cfg\<lparr>MetadataLoadedAt := True\<rparr>)
         else if Source_UpdateKey cfg = [] \<and> length (PrimaryKey cfg) = 0
         then Inl err_incremental_keys
         else Inr cfg)
      else if Mode cfg = BackfillMode then
        (if Source_UpdateKey cfg = [] \<or> length (PrimaryKey cfg) = 0 then Inl err_backfill_keys
         else
           (case Source_Options cfg of
              None \<Rightarrow> Inl err_backfill_range
            | Some so \<Rightarrow>
               (case Range so of
                  None \<Rightarrow> Inl err_backfill_range
                | Some rng \<Rightarrow>
                    if length (Split rng CHR '','') \<noteq> 2 then Inl err_backfill_range_value
                    else Inr cfg)))
      else if Mode cfg = SnapshotMode then Inr (cfg\<lparr>MetadataLoadedAt := True\<rparr>)
      else Inr cfg)"

text \<open>
  Lines 284 to 322: the error for a configuration with no job type. Line 291 stores the
  message about the source in \<open>targetErrMsg\<close>, as the code does.
\<close>

definition err_invalid_task :: "Lib \<Rightarrow> Config \<Rightarrow> error" where
  "err_invalid_task L cfg =
     (let q = [CHR 0x27];
          src_missing = (\<not> Options_StdIn cfg \<and> Conn_Name (SrcConn cfg) = []);
          sourceErrMsg =
            (if \<not> Options_StdIn cfg \<and> Conn_Name (SrcConn cfg) \<noteq> []
                \<and> IsUnknown L (Conn_Type (SrcConn cfg))
             then ''source connection '' @ q @ Conn_Name (SrcConn cfg) @ q
                  @ '' not valid / found in environment''
             else []);
          targetErrMsg0 =
            (if src_missing then ''source connection is missing, need to provide'' else []);
          targetErrMsg =
            (if \<not> Options_StdOut cfg then
               (if Conn_Name (TgtConn cfg) = []
                then ''target connection is missing, need to provide''
                else if IsUnknown L (Conn_Type (TgtConn cfg))
                then ''target connection '' @ q @ Conn_Name (TgtConn cfg) @ q
                     @ '' not valid / found in environment''
                else targetErrMsg0)
             else targetErrMsg0);
          output = (if sourceErrMsg \<noteq> [] then [''error -> '' @ sourceErrMsg] else [])
                   @ (if targetErrMsg \<noteq> [] then [''error -> '' @ targetErrMsg] else [])
      in Error (''invalid Task Configuration. Must specify valid source conn / file or target connection / output.''
                @ [CHR 0x0A] @ ''  '' @ Join output ([CHR 0x0A] @ ''  '')))"

text \<open>
  The function returns the job type and the error, and mutates \<open>cfg\<close>: the third
  component is the configuration afterwards. It takes no connection and no handle:
  everything it reads is in the configuration.
\<close>

definition DetermineType :: "Lib \<Rightarrow> Config \<Rightarrow> JobType \<times> error option \<times> Config" where
  "DetermineType L cfg =
     (let srcFileProvided = sourceIsFile L cfg;
          tgtFileProvided = (Options_StdOut cfg \<or> IsFile L (Conn_Type (TgtConn cfg)));
          srcDbProvided = IsDb L (Conn_Type (SrcConn cfg));
          tgtDbProvided = IsDb L (Conn_Type (TgtConn cfg));
          srcAPIProvided = False;
          srcStreamProvided = (Source_Stream cfg \<noteq> []);
          cfg1 = (if Mode cfg = [] then cfg\<lparr>Mode := FullRefreshMode\<rparr> else cfg)
      in if \<not> validMode (Mode cfg1) then (NoJobType, Some err_valid_mode, cfg1)
         else
           (case mode_keys L cfg1 of
              Inl e \<Rightarrow> (NoJobType, Some e, cfg1)
            | Inr cfg2 \<Rightarrow>
               (if srcDbProvided \<and> tgtDbProvided then (DbToDb, None, cfg2)
                else if srcFileProvided \<and> tgtDbProvided then (FileToDB, None, cfg2)
                else if srcDbProvided \<and> srcStreamProvided \<and> \<not> tgtDbProvided \<and> tgtFileProvided
                then (DbToFile, None, cfg2)
                else if srcFileProvided \<and> \<not> srcDbProvided \<and> \<not> tgtDbProvided \<and> tgtFileProvided
                then (FileToFile, None, cfg2)
                else if srcAPIProvided \<and> srcStreamProvided \<and> tgtDbProvided
                then (APIToDb, None, cfg2)
                else if srcAPIProvided \<and> srcStreamProvided \<and> \<not> srcDbProvided \<and> \<not> tgtDbProvided
                        \<and> tgtFileProvided
                then (APIToFile, None, cfg2)
                else
                  (case Target_Options cfg2 of
                     Some topts \<Rightarrow>
                       if tgtDbProvided \<and> PostSQL topts \<noteq> []
                       then (DbSQL, None, cfg2\<lparr>Target_Object := PostSQL topts\<rparr>)
                       else (NoJobType, Some (err_invalid_task L cfg2), cfg2)
                   | None \<Rightarrow> (NoJobType, Some (err_invalid_task L cfg2), cfg2)))))"

section \<open>\<open>ReadFromDB\<close> (task_run_read.go, lines 17 to 70)\<close>

text \<open>
  \<open>strings.ReplaceAll\<close> on bytes. Go works on runes when the pattern is empty; the two
  calls modelled have a non-empty pattern or an empty replacement, for which the two
  agree.
\<close>

function ReplaceAll :: "string \<Rightarrow> string \<Rightarrow> string \<Rightarrow> string" where
  "ReplaceAll [] old new = (if old = [] then new else [])"
| "ReplaceAll (c # cs) old new =
     (if old = [] then new @ c # ReplaceAll cs old new
      else if HasPrefix (c # cs) old then new @ ReplaceAll (drop (length old) (c # cs)) old new
      else c # ReplaceAll cs old new)"
  by pat_completeness auto
termination
  by (relation "measure (\<lambda>(s, old, new). length s)") auto

text \<open>Lines 43 to 45: the select entries that carry the prefix \<open>-\<close>.\<close>

definition excluded_fields :: "string list \<Rightarrow> string list" where
  "excluded_fields sel = filter (\<lambda>f. HasPrefix f ''-'') sel"

text \<open>
  Lines 53 to 61: the source columns no exclusion names. \<open>strings.EqualFold\<close> compares
  under Unicode case folding; it is taken as the parameter \<open>EqualFold\<close>.
\<close>

definition includedCols ::
  "(string \<Rightarrow> string \<Rightarrow> bool) \<Rightarrow> string \<Rightarrow> string list \<Rightarrow> Column list \<Rightarrow> Column list" where
  "includedCols EqualFold q excluded cols =
     filter (\<lambda>c. \<not> list_ex (\<lambda>exField.
        EqualFold (Col_Name c) (ReplaceAll (TrimPrefix exField ''-'') q [])) excluded) cols"

text \<open>
  The model ends at line 70 and returns \<open>selectFieldsStr\<close>; an error before that line
  is the error \<open>ReadFromDB\<close> returns. \<open>srcType\<close> is \<open>srcConn.GetType()\<close>,
  \<open>r_GetSourceTable\<close> the error of \<open>t.GetSourceTable()\<close> and \<open>r_GetSQLColumns\<close> the
  answer of \<open>srcConn.GetSQLColumns\<close>.
\<close>

definition ReadFromDB_selectFields ::
  "Lib \<Rightarrow> (string \<Rightarrow> string \<Rightarrow> bool) \<Rightarrow> Config \<Rightarrow> dbio_Type \<Rightarrow> error option \<Rightarrow>
   error + Column list \<Rightarrow> error + string" where
  "ReadFromDB_selectFields L EqualFold cfg srcType r_GetSourceTable r_GetSQLColumns =
     (case r_GetSourceTable of
        Some e \<Rightarrow> Inl (Wrap e ''Could not parse source stream text'')
      | None \<Rightarrow>
     (case r_GetSQLColumns of
        Inl e \<Rightarrow> Inl (Wrap e ''Could not get source columns'')
      | Inr columns \<Rightarrow>
     (if length (Source_Select cfg) > 0 then
        (let fields = Source_Select cfg;
             excluded = excluded_fields (Source_Select cfg)
         in if length excluded > 0 then
              (if length excluded \<noteq> length (Source_Select cfg)
               then Inl (Error (''All specified select columns must be excluded with prefix ''
                      @ [CHR 0x27] @ ''-'' @ [CHR 0x27] @ ''. Cannot do partial exclude.''))
               else
                 (let included = includedCols EqualFold (GetQualifierQuote L srcType) excluded columns
                  in if length included = 0
                     then Inl (Error ''All available columns were excluded'')
                     else Inr (Join (map Col_Name included) '', '')))
            else Inr (Join fields '', ''))
      else Inr ''*'')))"

section \<open>What a call changes\<close>


text \<open>The events that move rows into the final table.\<close>

definition is_move :: "event \<Rightarrow> bool" where
  "is_move e =
     (case e of InsertFromTemp _ _ \<Rightarrow> True | Exec _ \<Rightarrow> True | Upsert _ _ _ \<Rightarrow> True
      | SwapTable _ _ \<Rightarrow> True | _ \<Rightarrow> False)"

definition data_moves :: "event list \<Rightarrow> event list" where
  "data_moves tr = filter is_move tr"

section \<open>\<open>GenerateUpsertSQL\<close> (database_snowflake.go, lines 903 to 933)\<close>

text \<open>
  The statement Snowflake's connection builds for an upsert. \<open>GenerateUpsertExpressions\<close>
  of \<open>BaseConn\<close> is not among the modelled files and is a parameter; a Go map read at
  a missing key gives the empty string, so the map is a function. The template is the
  raw string of lines 911 to 919, with its line feeds and tabs.
\<close>

definition sqlTempl :: string where
  "sqlTempl =
     [CHR 0x0A, CHR 0x09] @ ''merge into {tgt_table} tgt'' @
     [CHR 0x0A, CHR 0x09] @ ''using (select {src_fields} from {src_table}) src'' @
     [CHR 0x0A, CHR 0x09] @ ''ON ({src_tgt_pk_equal})'' @
     [CHR 0x0A, CHR 0x09] @ ''WHEN MATCHED THEN'' @
     [CHR 0x0A, CHR 0x09, CHR 0x09] @ ''UPDATE SET {set_fields}'' @
     [CHR 0x0A, CHR 0x09] @ ''WHEN NOT MATCHED THEN'' @
     [CHR 0x0A, CHR 0x09, CHR 0x09] @
       ''INSERT ({insert_fields}) values  ({src_fields_values})'' @
     [CHR 0x0A, CHR 0x09]"

definition GenerateUpsertSQL ::
  "Lib \<Rightarrow> (string \<Rightarrow> string \<Rightarrow> string list \<Rightarrow> error + (string \<Rightarrow> string)) \<Rightarrow>
   string \<Rightarrow> string \<Rightarrow> string list \<Rightarrow> error + string" where
  "GenerateUpsertSQL L GenerateUpsertExpressions srcTable tgtTable pkFields =
     (case GenerateUpsertExpressions srcTable tgtTable pkFields of
        Inl e \<Rightarrow> Inl (Wrap e ''could not generate upsert variables'')
      | Inr upsertMap \<Rightarrow>
          Inr (g_R L sqlTempl
            [(''src_table'', srcTable),
             (''tgt_table'', tgtTable),
             (''src_tgt_pk_equal'', upsertMap ''src_tgt_pk_equal''),
             (''set_fields'', upsertMap ''set_fields''),
             (''insert_fields'', upsertMap ''insert_fields''),
             (''src_fields'', upsertMap ''src_fields''),
             (''src_fields_values'',
                ReplaceAll (upsertMap ''placehold_fields'') ''ph.'' ''src.'')]))"

section \<open>A concrete run\<close>

text \<open>
  An incremental load keyed on \<open>id\<close> into a Snowflake table that already exists; three
  rows are imported and every call succeeds. The witnesses vary this run.
\<close>

definition ex_Lib :: Lib where
  "ex_Lib = \<lparr>
     ParseTableName = (\<lambda>s ty. Inr \<lparr>Tbl_Schema = [], Tbl_Name = s\<rparr>),
     FullName = (\<lambda>t. if Tbl_Schema t = [] then Tbl_Name t else Tbl_Schema t @ ''.'' @ Tbl_Name t),
     DBNameUpperCase = (\<lambda>ty. ty = TypeDbOracle \<or> ty = TypeDbSnowflake),
     IsFile = (\<lambda>ty. ty = TypeOther ''file''),
     IsDb = (\<lambda>ty. ty \<noteq> TypeOther ''file''),
     IsUnknown = (\<lambda>ty. False),
     g_Error_nil = (\<lambda>msg. None),
     g_R = (\<lambda>t kv. t @ concat (map snd kv)),
     g_Rm = (\<lambda>s m. s),
     getSQLText = Inr,
     GetQualifierQuote = (\<lambda>ty. [CHR 0x22]),
     slingLoadedAtColumn = ''_sling_loaded_at''\<rparr>"

definition ex_Env :: Env where
  "ex_Env = \<lparr>
     SLING_CLI = [],
     SLING_ALLOW_EMPTY_TABLES = [],
     ERROR_ON_CHECKSUM_FAILURE = [],
     RandString_numeric = ''7'',
     RandString_alnum = ''q'',
     GetFormatMap_pre = Inr [],
     GetFormatMap_post = Inr []\<rparr>"

definition ex_opts :: TargetOptions where
  "ex_opts = \<lparr>
     AddNewColumns = Some True,
     AdjustColumnType = None,
     TableTmp = [],
     TableDDL = [],
     PreSQL = [],
     PostSQL = []\<rparr>"

definition ex_cfg :: Config where
  "ex_cfg = \<lparr>
     Mode = ''incremental'',
     Source_Stream = ''public.users'',
     Source_Select = [],
     Source_PrimaryKeyI = PkStrings [''id''],
     Source_UpdateKey = ''updated_at'',
     Source_Options = None,
     Target_Object = ''main.users'',
     Target_Options = Some ex_opts,
     Target_TmpTableCreated = False,
     Options_StdIn = False,
     Options_StdOut = False,
     SrcConn = \<lparr>Conn_Name = ''PG'', Conn_Type = TypeOther ''postgres''\<rparr>,
     TgtConn = \<lparr>Conn_Name = ''SNOW'', Conn_Type = TypeDbSnowflake\<rparr>,
     MetadataLoadedAt = False\<rparr>"

definition ex_df :: Dataflow where
  "ex_df = \<lparr>
     df_Columns = [\<lparr>Col_Name = ''id'', Col_Type = ''bigint''\<rparr>,
                   \<lparr>Col_Name = ''name'', Col_Type = ''string''\<rparr>],
     df_Buffer = [[''1'', ''Alice''], [''2'', ''Bob''], [''3'', ''Charlie'']],
     df_Pause = True,
     df_Count = 3,
     df_Err = None\<rparr>"

definition ex_conn :: Conn where
  "ex_conn = \<lparr>
     GetType = TypeDbSnowflake,
     truncate_table_template = ''truncate table '',
     r_DropTable_tmp = None,
     r_createTable_tmp = (True, None),
     r_BeginContext_tmp = None,
     r_BulkImportFlow = (3, None),
     r_GetCount = 3,
     r_ExecMulti_pre = None,
     r_CompareChecksums = None,
     r_BeginContext_final = None,
     r_DropTable_final = None,
     r_createTable_final = (False, None),
     r_AddMissingColumns = (False, None),
     r_pullTargetTableColumns_1 = None,
     r_pullTargetTableColumns_2 = None,
     r_OptimizeTable = (False, None),
     r_SwapTable = None,
     r_DropTable_swapped = None,
     r_insertFromTemp = None,
     r_Exec_truncate = None,
     r_Upsert = (3, None),
     r_ExecMulti_post = None,
     r_Commit = None\<rparr>"


section \<open>Facts about sequencing\<close>

lemmas step_defs = emit_def returns_def proceed_def andThen_def deferred_def

lemma fst_emit: "fst (emit es m) = es @ fst m"
  by (simp add: emit_def)

lemma snd_emit: "snd (emit es m) = snd m"
  by (simp add: emit_def)

lemma andThen_Inl: "snd m = Inl r \<Longrightarrow> andThen m f = (fst m, Inl r)"
  by (simp add: andThen_def)

lemma andThen_Inr: "snd m = Inr a \<Longrightarrow> andThen m f = emit (fst m) (f a)"
  by (simp add: andThen_def)

section \<open>Facts about the pieces of \<open>WriteToDb\<close>\<close>

lemma preamble_no_events: "fst (preamble L E cfg df conn) = []"
  by (simp add: preamble_def step_defs Let_def split: option.splits sum.splits)

lemma stage_Inr:
  "snd (stage L E cfg opts df conn) = Inr x \<Longrightarrow>
     x = (fst (r_BulkImportFlow conn), cfg\<lparr>Target_TmpTableCreated := True\<rparr>)"
  by (simp add: stage_def step_defs Let_def split: option.splits if_splits)



text \<open>The three ways a call can go: it ends before staging, in staging, or after it.\<close>

lemma WriteToDb_preamble_returns:
  "snd (preamble L E cfg df conn) = Inl (c, e, cfg') \<Longrightarrow>
     WriteToDb L E cfg df conn = \<lparr>cnt = c, err = e, trace = [PBarFinish], cfg_out = cfg'\<rparr>"
  by (simp add: WriteToDb_def finish_def deferred_def andThen_Inl preamble_no_events)

lemma WriteToDb_stage_returns:
  "snd (preamble L E cfg df conn) = Inr (cfg1, opts) \<Longrightarrow>
   snd (stage L E cfg1 opts df conn) = Inl (c, e, cfg') \<Longrightarrow>
     WriteToDb L E cfg df conn =
       \<lparr>cnt = c, err = e, trace = fst (stage L E cfg1 opts df conn) @ [PBarFinish], cfg_out = cfg'\<rparr>"
  by (simp add: WriteToDb_def finish_def deferred_def andThen_Inl andThen_Inr preamble_no_events
      fst_emit snd_emit)

lemma WriteToDb_imported:
  "snd (preamble L E cfg df conn) = Inr (cfg1, opts) \<Longrightarrow>
   snd (stage L E cfg1 opts df conn) = Inr (n, cfg2) \<Longrightarrow>
     WriteToDb L E cfg df conn =
       finish cfg (deferred PBarFinish
         (emit (fst (stage L E cfg1 opts df conn)) (after_import L E cfg2 opts df conn n)))"
  by (simp add: WriteToDb_def andThen_Inr preamble_no_events emit_def)

lemmas ex_defs = ex_Lib_def ex_Env_def ex_opts_def ex_cfg_def ex_df_def ex_conn_def

lemmas mode_defs =
  TruncateMode_def FullRefreshMode_def IncrementalMode_def SnapshotMode_def BackfillMode_def

lemmas err_defs = err_valid_mode_def err_incremental_keys_def err_backfill_keys_def
  err_backfill_range_def err_backfill_range_value_def err_invalid_task_def

lemmas WriteToDb_defs =
  WriteToDb_def finish_def preamble_def tmp_table_name_def tmp_table_def stage_def
  after_import_def verify_def pre_sql_def checksum_def merge_def in_final_tx_def
  commit_final_def txOptions_def
  prepare_final_def put_data_def post_sql_def step_defs sourceIsFile_def PrimaryKey_def
  cast_ToBool_def ToUpper_def ToLower_def upper_char_def lower_char_def mode_defs Let_def

lemma fst_andThen:
  "fst (andThen m f) = (case snd m of Inl r \<Rightarrow> fst m | Inr a \<Rightarrow> fst m @ fst (f a))"
  by (simp add: andThen_def emit_def split: sum.splits)

lemma snd_andThen:
  "snd (andThen m f) = (case snd m of Inl r \<Rightarrow> Inl r | Inr a \<Rightarrow> snd (f a))"
  by (simp add: andThen_def emit_def split: sum.splits)

lemma stage_events:
  "e \<in> set (fst (stage L E cfg opts df conn)) \<Longrightarrow>
     e \<in> {DropTable (TableTmp opts), Pause,
          CreateTableIfNotExists (TableTmp opts)
            (Replace1 (TableDDL opts) (Target_Object cfg) (TableTmp opts)),
          AddCleanupTask (TableTmp opts), BeginContext None, Unpause,
          SetProgress ''streaming data'', BulkImportFlow (TableTmp opts), Rollback}"
  by (auto simp add: stage_def step_defs Let_def split: option.splits if_splits)

lemma stage_head: "\<exists>rest. fst (stage L E cfg opts df conn) = DropTable (TableTmp opts) # rest"
  by (simp add: stage_def emit_def Let_def)

lemma stage_Inl:
  "snd (stage L E cfg opts df conn) = Inl (c, e, cfg') \<Longrightarrow>
     Target_Options cfg' = Target_Options cfg \<and> Mode cfg' = Mode cfg"
  by (auto simp add: stage_def step_defs Let_def split: option.splits if_splits)

lemma fst_verify:
  "fst (verify cfg opts df conn n) = [Commit, PBarFinish, GetCount (TableTmp opts)]"
  by (simp add: verify_def step_defs Let_def)

lemma snd_verify:
  "snd (verify cfg opts df conn n) =
     (if n \<noteq> r_GetCount conn then Inl (n, Some (Error
        ''inserted in temp table but table count (%d) != stream count (%d). Records missing. Aborting''), cfg)
      else if r_GetCount conn = 0 \<and> df_Buffer df \<noteq> [] then Inl (n, Some (Error
        ''Loaded 0 records while sample data has %d records. Exiting.''), cfg)
      else Inr ())"
  by (simp add: verify_def step_defs Let_def)

lemma pre_sql_events:
  "e \<in> set (fst (pre_sql L E cfg opts conn n)) \<Longrightarrow>
     e = SetProgress ''executing pre-sql'' \<or> (\<exists>s. e = ExecMulti s)"
  by (auto simp add: pre_sql_def step_defs split: option.splits sum.splits if_splits)

lemma pre_sql_Inl:
  "snd (pre_sql L E cfg opts conn n) = Inl (c, e, cfg') \<Longrightarrow> c = n \<and> e \<noteq> None \<and> cfg' = cfg"
  by (auto simp add: pre_sql_def step_defs split: option.splits sum.splits if_splits)

lemma pre_sql_ok:
  "PreSQL opts = [] \<or>
     (\<not> isl (getSQLText L (PreSQL opts)) \<and> \<not> isl (GetFormatMap_pre E) \<and> r_ExecMulti_pre conn = None)
   \<Longrightarrow> snd (pre_sql L E cfg opts conn n) = Inr ()"
  by (auto simp add: pre_sql_def step_defs split: option.splits sum.splits if_splits)

lemma fst_checksum:
  "fst (checksum E cfg opts df conn n) =
     (if 0 < n \<and> df_Count df \<le> 10000 then [CompareChecksums (TableTmp opts)] else [])"
  by (auto simp add: checksum_def step_defs split: option.splits)

lemma snd_checksum:
  "snd (checksum E cfg opts df conn n) =
     (if n = 0 then (if cast_ToBool (SLING_ALLOW_EMPTY_TABLES E) then Inr () else Inl (n, None, cfg))
      else if df_Count df \<le> 10000 \<and> r_CompareChecksums conn \<noteq> None \<and> ERROR_ON_CHECKSUM_FAILURE E \<noteq> []
      then Inl (n, r_CompareChecksums conn, cfg) else Inr ())"
  by (auto simp add: checksum_def step_defs split: option.splits)

lemma prepare_final_events:
  "e \<in> set (fst (prepare_final L cfg opts conn n)) \<Longrightarrow>
     (e = DropTable (Target_Object cfg) \<and> Mode cfg = FullRefreshMode)
     \<or> e = SetProgress (''dropped table '' @ Target_Object cfg)
     \<or> e = CreateTableIfNotExists (Target_Object cfg) (TableDDL opts)
     \<or> e = SetProgress (''created table '' @ Target_Object cfg)
     \<or> (\<exists>t. e = AddMissingColumns t) \<or> (\<exists>b. e = PullTargetTableColumns b)
     \<or> (\<exists>t. e = OptimizeTable t)"
  by (auto simp add: prepare_final_def step_defs Let_def split: option.splits sum.splits if_splits bool.splits)

lemma prepare_final_Inl:
  "snd (prepare_final L cfg opts conn n) = Inl (c, e, cfg') \<Longrightarrow> c = n \<and> e \<noteq> None \<and> cfg' = cfg"
  by (auto simp add: prepare_final_def step_defs Let_def split: option.splits sum.splits if_splits bool.splits)

lemma put_data_events:
  "e \<in> set (fst (put_data L cfg opts conn n)) \<Longrightarrow>
     e = SetProgress ''0 rows inserted. Nothing to do.''
     \<or> (Mode cfg = ''drop (need to optimize temp table in place)'' \<and>
         (e = SwapTable (TableTmp opts) (Target_Object cfg) \<or> e = DropTable (TableTmp opts)
          \<or> e = SetProgress (''dropped old table of '' @ Target_Object cfg)))
     \<or> e = InsertFromTemp (TableTmp opts) (Target_Object cfg)
     \<or> e = Exec (g_R L (truncate_table_template conn) [(''table'', Target_Object cfg)])
     \<or> e = SetProgress (''truncated table '' @ Target_Object cfg)
     \<or> e = Upsert (TableTmp opts) (Target_Object cfg) (PrimaryKey cfg)"
  by (auto simp add: put_data_def step_defs Let_def split: option.splits if_splits)

lemma put_data_Inl:
  "snd (put_data L cfg opts conn n) = Inl (c, e, cfg') \<Longrightarrow> e \<noteq> None \<and> cfg' = cfg"
  by (auto simp add: put_data_def step_defs Let_def split: option.splits if_splits)

lemma post_sql_events:
  "e \<in> set (fst (post_sql L E cfg opts conn n)) \<Longrightarrow>
     e = SetProgress ''executing post-sql'' \<or> (\<exists>s. e = ExecMulti s)"
  by (auto simp add: post_sql_def step_defs split: option.splits sum.splits if_splits)

lemma post_sql_Inl:
  "snd (post_sql L E cfg opts conn n) = Inl (c, e, cfg') \<Longrightarrow> c = n \<and> e \<noteq> None \<and> cfg' = cfg"
  by (auto simp add: post_sql_def step_defs split: option.splits sum.splits if_splits)



lemma fst_commit_final: "fst (commit_final cfg df conn n) = [Commit]"
  by (simp add: commit_final_def step_defs split: option.splits)

lemma snd_commit_final:
  "snd (commit_final cfg df conn n) =
     Inl (n, (case r_Commit conn of Some e \<Rightarrow> Some (Wrap e ''could not commit'') | None \<Rightarrow> df_Err df), cfg)"
  by (simp add: commit_final_def step_defs split: option.splits)

lemma fst_in_final_tx:
  "fst (in_final_tx L E cfg opts df conn n) =
     fst (prepare_final L cfg opts conn n) @
     (if isl (snd (prepare_final L cfg opts conn n)) then []
      else fst (put_data L cfg opts conn n) @
     (if isl (snd (put_data L cfg opts conn n)) then []
      else fst (post_sql L E cfg opts conn n) @
     (if isl (snd (post_sql L E cfg opts conn n)) then [] else [Commit])))"
  by (simp add: in_final_tx_def fst_andThen fst_commit_final split: sum.splits)

lemma snd_in_final_tx:
  "snd (in_final_tx L E cfg opts df conn n) =
     (if isl (snd (prepare_final L cfg opts conn n)) then snd (prepare_final L cfg opts conn n)
      else if isl (snd (put_data L cfg opts conn n)) then snd (put_data L cfg opts conn n)
      else if isl (snd (post_sql L E cfg opts conn n)) then snd (post_sql L E cfg opts conn n)
      else snd (commit_final cfg df conn n))"
  by (simp add: in_final_tx_def snd_andThen split: sum.splits)

lemma fst_merge:
  "fst (merge L E cfg opts df conn n) =
     BeginContext (Some (txOptions (GetType conn))) #
     (if r_BeginContext_final conn = None
      then fst (in_final_tx L E cfg opts df conn n) @ [Rollback] else [])"
  by (simp add: merge_def step_defs split: option.splits)

lemma snd_merge:
  "snd (merge L E cfg opts df conn n) =
     (case r_BeginContext_final conn of
        Some e \<Rightarrow> Inl (n, Some (Wrap e ''could not open transcation to write to final table''), cfg)
      | None \<Rightarrow> snd (in_final_tx L E cfg opts df conn n))"
  by (simp add: merge_def step_defs split: option.splits)

lemma fst_after_import:
  "fst (after_import L E cfg opts df conn n) =
     fst (verify cfg opts df conn n) @
     (if isl (snd (verify cfg opts df conn n)) then []
      else fst (pre_sql L E cfg opts conn n) @
     (if isl (snd (pre_sql L E cfg opts conn n)) then []
      else fst (checksum E cfg opts df conn n) @
     (if isl (snd (checksum E cfg opts df conn n)) then []
      else fst (merge L E cfg opts df conn n))))"
  by (simp add: after_import_def fst_andThen split: sum.splits)

lemma snd_after_import:
  "snd (after_import L E cfg opts df conn n) =
     (if isl (snd (verify cfg opts df conn n)) then snd (verify cfg opts df conn n)
      else if isl (snd (pre_sql L E cfg opts conn n)) then snd (pre_sql L E cfg opts conn n)
      else if isl (snd (checksum E cfg opts df conn n)) then snd (checksum E cfg opts df conn n)
      else snd (merge L E cfg opts df conn n))"
  by (simp add: after_import_def snd_andThen split: sum.splits)

lemma trace_finish: "trace (finish cfg (deferred e m)) = fst m @ [e]"
  by (simp add: finish_def deferred_def split: sum.splits prod.splits)

lemma err_finish:
  "err (finish cfg (deferred ev m)) = (case snd m of Inl (c, e, cfg') \<Rightarrow> e | Inr u \<Rightarrow> None)"
  by (simp add: finish_def deferred_def split: sum.splits prod.splits)

lemma in_final_tx_events:
  "e \<in> set (fst (in_final_tx L E cfg opts df conn n)) \<Longrightarrow>
     e \<in> set (fst (prepare_final L cfg opts conn n)) \<or> e \<in> set (fst (put_data L cfg opts conn n))
     \<or> e \<in> set (fst (post_sql L E cfg opts conn n)) \<or> e = Commit"
  by (auto simp add: fst_in_final_tx split: if_splits)

lemma merge_events:
  "e \<in> set (fst (merge L E cfg opts df conn n)) \<Longrightarrow>
     e = BeginContext (Some (txOptions (GetType conn))) \<or> e = Rollback
     \<or> e \<in> set (fst (in_final_tx L E cfg opts df conn n))"
  by (auto simp add: fst_merge split: if_splits)

lemma merge_no_CompareChecksums: "CompareChecksums t \<notin> set (fst (merge L E cfg opts df conn n))"
  by (auto dest!: merge_events in_final_tx_events prepare_final_events put_data_events
      post_sql_events)

lemma preamble_Inr:
  "snd (preamble L E cfg df conn) = Inr (cfg1, opts) \<Longrightarrow>
     df_Columns df \<noteq> [] \<and> Target_Options cfg1 = Some opts \<and>
     Target_Object cfg1 = Target_Object cfg \<and> PrimaryKey cfg1 = PrimaryKey cfg \<and>
     Mode cfg1 = (if Mode cfg = [] then FullRefreshMode else Mode cfg) \<and>
     (\<exists>opts0. Target_Options cfg = Some opts0 \<and> PreSQL opts = PreSQL opts0 \<and>
        PostSQL opts = PostSQL opts0 \<and> TableDDL opts = TableDDL opts0 \<and>
        (TableTmp opts0 \<noteq> [] \<longrightarrow> TableTmp opts = TableTmp opts0) \<and>
        (TableTmp opts0 = [] \<longrightarrow>
           tmp_table_name L E (GetType conn) (Target_Object cfg) = Inr (TableTmp opts)))"
  by (auto simp add: preamble_def step_defs Let_def PrimaryKey_def split: option.splits sum.splits if_splits)

lemma stage_imports:
  "snd (stage L E cfg opts df conn) = Inr x \<Longrightarrow>
     BulkImportFlow (TableTmp opts) \<in> set (fst (stage L E cfg opts df conn))"
  by (simp add: stage_def step_defs Let_def split: option.splits if_splits)

lemma WriteToDb_cases [case_names early staging imported]:
  obtains
    (early) "trace (WriteToDb L E cfg df conn) = [PBarFinish]"
  | (staging) cfg1 opts c e cfg' where
      "snd (preamble L E cfg df conn) = Inr (cfg1, opts)"
      "snd (stage L E cfg1 opts df conn) = Inl (c, e, cfg')"
      "WriteToDb L E cfg df conn =
         \<lparr>cnt = c, err = e, trace = fst (stage L E cfg1 opts df conn) @ [PBarFinish], cfg_out = cfg'\<rparr>"
  | (imported) cfg1 opts where
      "snd (preamble L E cfg df conn) = Inr (cfg1, opts)"
      "WriteToDb L E cfg df conn =
         finish cfg (deferred PBarFinish
           (emit (fst (stage L E cfg1 opts df conn))
              (after_import L E (cfg1\<lparr>Target_TmpTableCreated := True\<rparr>) opts df conn
                 (fst (r_BulkImportFlow conn)))))"
      "BulkImportFlow (TableTmp opts) \<in> set (fst (stage L E cfg1 opts df conn))"
proof (cases "snd (preamble L E cfg df conn)")
  case (Inl r)
  obtain c e cfg' where "r = (c, e, cfg')" by (cases r) auto
  with Inl have "trace (WriteToDb L E cfg df conn) = [PBarFinish]"
    by (simp add: WriteToDb_preamble_returns)
  then show ?thesis by (rule early)
next
  case (Inr p)
  obtain cfg1 opts where p: "p = (cfg1, opts)" by (cases p) auto
  show ?thesis
  proof (cases "snd (stage L E cfg1 opts df conn)")
    case (Inl r)
    obtain c e cfg' where r: "r = (c, e, cfg')" by (cases r) auto
    show ?thesis
      using Inr Inl p r by (intro staging[of cfg1 opts c e cfg']) (simp_all add: WriteToDb_stage_returns)
  next
    case inr: (Inr x)
    have x: "x = (fst (r_BulkImportFlow conn), cfg1\<lparr>Target_TmpTableCreated := True\<rparr>)"
      using inr by (rule stage_Inr)
    show ?thesis
      using Inr p inr x stage_imports[OF inr]
      by (intro imported[of cfg1 opts]) (simp_all add: WriteToDb_imported)
  qed
qed

lemma after_import_checksum:
  assumes "CompareChecksums t \<in> set (fst (after_import L E cfg opts df conn n))"
  shows "df_Count df \<le> 10000 \<and> 0 < n \<and> t = TableTmp opts \<and>
     fst (after_import L E cfg opts df conn n) =
       (fst (verify cfg opts df conn n) @ fst (pre_sql L E cfg opts conn n)) @
       CompareChecksums t #
       (if isl (snd (checksum E cfg opts df conn n)) then [] else fst (merge L E cfg opts df conn n)) \<and>
     snd (after_import L E cfg opts df conn n) =
       (if isl (snd (checksum E cfg opts df conn n)) then snd (checksum E cfg opts df conn n)
        else snd (merge L E cfg opts df conn n))"
  using assms merge_no_CompareChecksums[of t L E cfg opts df conn n]
  by (auto simp add: fst_after_import snd_after_import fst_verify fst_checksum
      dest: pre_sql_events split: if_splits)






lemma put_data_branches:
  fixes n :: nat and cfg :: Config
  obtains (zero) "n = 0"
  | (swap) "n \<noteq> 0" "Mode cfg = ''drop (need to optimize temp table in place)''"
  | (insert) "n \<noteq> 0" "Mode cfg \<noteq> ''drop (need to optimize temp table in place)''"
      "(Mode cfg = IncrementalMode \<and> length (PrimaryKey cfg) = 0)
         \<or> Mode cfg = SnapshotMode \<or> Mode cfg = FullRefreshMode"
  | (truncate) "n \<noteq> 0" "Mode cfg \<noteq> ''drop (need to optimize temp table in place)''"
      "\<not> ((Mode cfg = IncrementalMode \<and> length (PrimaryKey cfg) = 0)
         \<or> Mode cfg = SnapshotMode \<or> Mode cfg = FullRefreshMode)"
      "Mode cfg = TruncateMode"
  | (upsert) "n \<noteq> 0" "Mode cfg \<noteq> ''drop (need to optimize temp table in place)''"
      "\<not> ((Mode cfg = IncrementalMode \<and> length (PrimaryKey cfg) = 0)
         \<or> Mode cfg = SnapshotMode \<or> Mode cfg = FullRefreshMode)"
      "Mode cfg \<noteq> TruncateMode" "Mode cfg = IncrementalMode \<or> Mode cfg = BackfillMode"
  | (other) "n \<noteq> 0" "Mode cfg \<noteq> ''drop (need to optimize temp table in place)''"
      "\<not> ((Mode cfg = IncrementalMode \<and> length (PrimaryKey cfg) = 0)
         \<or> Mode cfg = SnapshotMode \<or> Mode cfg = FullRefreshMode)"
      "Mode cfg \<noteq> TruncateMode" "\<not> (Mode cfg = IncrementalMode \<or> Mode cfg = BackfillMode)"
  by blast


lemma put_data_insert:
  "n \<noteq> 0 \<Longrightarrow> Mode cfg \<noteq> ''drop (need to optimize temp table in place)'' \<Longrightarrow>
   (Mode cfg = IncrementalMode \<and> length (PrimaryKey cfg) = 0)
         \<or> Mode cfg = SnapshotMode \<or> Mode cfg = FullRefreshMode \<Longrightarrow>
   put_data L cfg opts conn n =
     ([InsertFromTemp (TableTmp opts) (Target_Object cfg)],
      (case r_insertFromTemp conn of
         Some e \<Rightarrow> Inl (0, Some (Wrap e ''Could not insert from temp''), cfg)
       | None \<Rightarrow> Inr ()))"
  by (simp add: put_data_def step_defs Let_def split: option.splits)

lemma put_data_truncate:
  "n \<noteq> 0 \<Longrightarrow> Mode cfg \<noteq> ''drop (need to optimize temp table in place)'' \<Longrightarrow>
   \<not> ((Mode cfg = IncrementalMode \<and> length (PrimaryKey cfg) = 0)
         \<or> Mode cfg = SnapshotMode \<or> Mode cfg = FullRefreshMode) \<Longrightarrow>
   Mode cfg = TruncateMode \<Longrightarrow>
   put_data L cfg opts conn n =
     (Exec (g_R L (truncate_table_template conn) [(''table'', Target_Object cfg)]) #
      (if r_Exec_truncate conn = None
       then [SetProgress (''truncated table '' @ Target_Object cfg),
             InsertFromTemp (TableTmp opts) (Target_Object cfg)]
       else []),
      (case r_Exec_truncate conn of
         Some e \<Rightarrow> Inl (n, Some (Wrap e (''Could not truncate table: '' @ Target_Object cfg)), cfg)
       | None \<Rightarrow>
        (case r_insertFromTemp conn of
           Some e \<Rightarrow> Inl (0, Some (Wrap e ''Could not insert from temp''), cfg)
         | None \<Rightarrow> Inr ())))"
  by (simp add: put_data_def step_defs Let_def split: option.splits)

lemma put_data_upsert:
  "n \<noteq> 0 \<Longrightarrow> Mode cfg \<noteq> ''drop (need to optimize temp table in place)'' \<Longrightarrow>
   \<not> ((Mode cfg = IncrementalMode \<and> length (PrimaryKey cfg) = 0)
         \<or> Mode cfg = SnapshotMode \<or> Mode cfg = FullRefreshMode) \<Longrightarrow>
   Mode cfg \<noteq> TruncateMode \<Longrightarrow> Mode cfg = IncrementalMode \<or> Mode cfg = BackfillMode \<Longrightarrow>
   put_data L cfg opts conn n =
     ([Upsert (TableTmp opts) (Target_Object cfg) (PrimaryKey cfg)],
      (case snd (r_Upsert conn) of
         Some e \<Rightarrow> Inl (0, Some (Wrap e ''Could not incremental from temp''), cfg)
       | None \<Rightarrow> Inr ()))"
  by (simp add: put_data_def step_defs Let_def split: option.splits)







lemma isl_snd_err:
  "isl (snd m) \<Longrightarrow> (\<And>c e cfg'. snd m = Inl (c, e, cfg') \<Longrightarrow> e \<noteq> None) \<Longrightarrow>
     (case snd m of Inl (c, e, cfg') \<Rightarrow> e | Inr u \<Rightarrow> None) \<noteq> None"
  by (cases "snd m") auto



section \<open>Facts about the data-moving events\<close>

lemma after_first_notin: "e \<notin> set xs \<Longrightarrow> after_first e xs = []"
  by (induction xs) (auto simp add: after_first_def)

lemma data_moves_Nil: "data_moves [] = []"
  by (simp add: data_moves_def)

lemma no_moves: "(\<And>e. e \<in> set xs \<Longrightarrow> \<not> is_move e) \<Longrightarrow> data_moves xs = []"
  by (simp add: data_moves_def filter_empty_conv)

lemma data_moves_append: "data_moves (xs @ ys) = data_moves xs @ data_moves ys"
  by (simp add: data_moves_def)

lemma data_moves_stage: "data_moves (fst (stage L E cfg opts df conn)) = []"
  by (rule no_moves) (auto dest!: stage_events simp add: is_move_def)

lemma data_moves_verify: "data_moves (fst (verify cfg opts df conn n)) = []"
  by (simp add: fst_verify data_moves_def is_move_def)

lemma data_moves_pre_sql: "data_moves (fst (pre_sql L E cfg opts conn n)) = []"
  by (rule no_moves) (auto dest!: pre_sql_events simp add: is_move_def)

lemma data_moves_checksum: "data_moves (fst (checksum E cfg opts df conn n)) = []"
  by (simp add: fst_checksum data_moves_def is_move_def)

lemma data_moves_prepare_final: "data_moves (fst (prepare_final L cfg opts conn n)) = []"
  by (rule no_moves) (auto dest!: prepare_final_events simp add: is_move_def)

lemma data_moves_post_sql: "data_moves (fst (post_sql L E cfg opts conn n)) = []"
  by (rule no_moves) (auto dest!: post_sql_events simp add: is_move_def)

lemma data_moves_in_final_tx:
  "data_moves (fst (in_final_tx L E cfg opts df conn n)) =
     (if isl (snd (prepare_final L cfg opts conn n)) then []
      else data_moves (fst (put_data L cfg opts conn n)))"
  by (simp add: fst_in_final_tx data_moves_append data_moves_prepare_final data_moves_post_sql)
     (simp add: data_moves_def is_move_def)

lemma data_moves_merge:
  "data_moves (fst (merge L E cfg opts df conn n)) =
     (if r_BeginContext_final conn = None
      then data_moves (fst (in_final_tx L E cfg opts df conn n)) else [])"
  by (simp add: fst_merge data_moves_append)
     (simp add: data_moves_def is_move_def)

lemma data_moves_after_import:
  "data_moves (fst (after_import L E cfg opts df conn n)) =
     (if isl (snd (verify cfg opts df conn n)) \<or> isl (snd (pre_sql L E cfg opts conn n))
         \<or> isl (snd (checksum E cfg opts df conn n)) \<or> r_BeginContext_final conn \<noteq> None
         \<or> isl (snd (prepare_final L cfg opts conn n))
      then [] else data_moves (fst (put_data L cfg opts conn n)))"
  by (simp add: fst_after_import data_moves_append data_moves_verify data_moves_pre_sql
      data_moves_checksum data_moves_merge data_moves_in_final_tx data_moves_Nil)

lemma prepare_final_creates:
  "\<not> isl (snd (prepare_final L cfg opts conn n)) \<Longrightarrow>
     CreateTableIfNotExists (Target_Object cfg) (TableDDL opts)
       \<in> set (fst (prepare_final L cfg opts conn n))"
  by (auto simp add: prepare_final_def step_defs Let_def split: option.splits if_splits)

lemma after_import_no_BulkImportFlow:
  "BulkImportFlow t \<notin> set (fst (after_import L E cfg opts df conn n))"
  by (auto simp add: fst_after_import fst_verify fst_checksum
      dest!: pre_sql_events merge_events in_final_tx_events prepare_final_events put_data_events
        post_sql_events split: if_splits)

section \<open>Facts about what a call changes\<close>


lemma stage_staged:
  "BulkImportFlow tmp \<in> set (fst (stage L E cfg opts df conn)) \<Longrightarrow> tmp = TableTmp opts"
  by (auto dest!: stage_events)


text \<open>A call that reached the import either failed in staging or went on after it.\<close>

lemma WriteToDb_staged [consumes 1, case_names failed imported]:
  assumes "BulkImportFlow tmp \<in> set (trace (WriteToDb L E cfg df conn))"
  obtains
    (failed) cfg1 opts c e cfg' where
      "snd (preamble L E cfg df conn) = Inr (cfg1, opts)" "TableTmp opts = tmp"
      "snd (stage L E cfg1 opts df conn) = Inl (c, e, cfg')"
      "WriteToDb L E cfg df conn =
         \<lparr>cnt = c, err = e, trace = fst (stage L E cfg1 opts df conn) @ [PBarFinish], cfg_out = cfg'\<rparr>"
  | (imported) cfg1 opts where
      "snd (preamble L E cfg df conn) = Inr (cfg1, opts)" "TableTmp opts = tmp"
      "WriteToDb L E cfg df conn =
         finish cfg (deferred PBarFinish
           (emit (fst (stage L E cfg1 opts df conn))
              (after_import L E (cfg1\<lparr>Target_TmpTableCreated := True\<rparr>) opts df conn
                 (fst (r_BulkImportFlow conn)))))"
proof (cases L E cfg df conn rule: WriteToDb_cases)
  case early
  with assms show ?thesis by simp
next
  case (staging cfg1 opts c e cfg')
  with assms have "tmp = TableTmp opts" by (auto dest!: stage_events)
  with staging show ?thesis by (intro failed[of cfg1 opts c e cfg']) simp_all
next
  case (imported cfg1 opts)
  have "BulkImportFlow tmp \<in> set (fst (stage L E cfg1 opts df conn))"
    using assms
      after_import_no_BulkImportFlow[of tmp L E "cfg1\<lparr>Target_TmpTableCreated := True\<rparr>" opts df conn
        "fst (r_BulkImportFlow conn)"]
    by (simp add: imported trace_finish fst_emit)
  then have "tmp = TableTmp opts" by (rule stage_staged)
  with imported show ?thesis by (intro that(2)[of cfg1 opts]) simp_all
qed




section \<open>Facts about whole calls\<close>

lemma stage_Inl_imported:
  "snd (stage L E cfg opts df conn) = Inl (c, e, cfg') \<Longrightarrow>
   BulkImportFlow t \<in> set (fst (stage L E cfg opts df conn)) \<Longrightarrow> e \<noteq> None"
  by (auto simp add: stage_def step_defs Let_def split: option.splits if_splits)

lemma after_import_ok:
  assumes pos: "0 < n"
    and ok: "(case snd (after_import L E cfg opts df conn n) of
               Inl (c, e, cfg') \<Rightarrow> e | Inr u \<Rightarrow> None) = None"
  shows "\<not> isl (snd (verify cfg opts df conn n)) \<and> \<not> isl (snd (pre_sql L E cfg opts conn n)) \<and>
     \<not> isl (snd (checksum E cfg opts df conn n)) \<and> r_BeginContext_final conn = None \<and>
     \<not> isl (snd (prepare_final L cfg opts conn n)) \<and> \<not> isl (snd (put_data L cfg opts conn n)) \<and>
     \<not> isl (snd (post_sql L E cfg opts conn n))"
proof -
  let ?V = "verify cfg opts df conn n" and ?P = "pre_sql L E cfg opts conn n"
  let ?K = "checksum E cfg opts df conn n" and ?F = "prepare_final L cfg opts conn n"
  let ?D = "put_data L cfg opts conn n" and ?Q = "post_sql L E cfg opts conn n"
  have v: "\<not> isl (snd ?V)"
  proof
    assume a: "isl (snd ?V)"
    then have "snd (after_import L E cfg opts df conn n) = snd ?V" by (simp add: snd_after_import)
    with ok a show False by (auto simp add: snd_verify split: if_splits)
  qed
  have p: "\<not> isl (snd ?P)"
  proof
    assume a: "isl (snd ?P)"
    then have "snd (after_import L E cfg opts df conn n) = snd ?P"
      using v by (simp add: snd_after_import)
    with ok a pre_sql_Inl[of L E cfg opts conn n] show False by (cases "snd ?P") auto
  qed
  have k: "\<not> isl (snd ?K)"
  proof
    assume a: "isl (snd ?K)"
    then have "snd (after_import L E cfg opts df conn n) = snd ?K"
      using v p by (simp add: snd_after_import)
    with ok a pos show False by (auto simp add: snd_checksum split: if_splits)
  qed
  have m: "snd (after_import L E cfg opts df conn n) = snd (merge L E cfg opts df conn n)"
    using v p k by (simp add: snd_after_import)
  have b: "r_BeginContext_final conn = None"
    using ok by (cases "r_BeginContext_final conn") (simp_all add: m snd_merge)
  then have i: "snd (after_import L E cfg opts df conn n) =
      snd (in_final_tx L E cfg opts df conn n)"
    by (simp add: m snd_merge)
  have f: "\<not> isl (snd ?F)"
  proof
    assume a: "isl (snd ?F)"
    then have "snd (after_import L E cfg opts df conn n) = snd ?F" by (simp add: i snd_in_final_tx)
    with ok a prepare_final_Inl[of L cfg opts conn n] show False by (cases "snd ?F") auto
  qed
  have d: "\<not> isl (snd ?D)"
  proof
    assume a: "isl (snd ?D)"
    then have "snd (after_import L E cfg opts df conn n) = snd ?D"
      using f by (simp add: i snd_in_final_tx)
    with ok a put_data_Inl[of L cfg opts conn n] show False by (cases "snd ?D") auto
  qed
  have q: "\<not> isl (snd ?Q)"
  proof
    assume a: "isl (snd ?Q)"
    then have "snd (after_import L E cfg opts df conn n) = snd ?Q"
      using f d by (simp add: i snd_in_final_tx)
    with ok a post_sql_Inl[of L E cfg opts conn n] show False by (cases "snd ?Q") auto
  qed
  from v p k b f d q show ?thesis by simp
qed

text \<open>
  The data-moving events of a call that reached the import are those of the dispatch of
  lines 411 to 472, or none when the call stopped before it. A call that returns no
  error after importing at least one row went through the dispatch without error.
\<close>

lemma WriteToDb_data_moves:
  assumes staged: "BulkImportFlow tmp \<in> set (trace (WriteToDb L E cfg df conn))"
  shows "\<exists>cfg2 opts. TableTmp opts = tmp \<and> Target_Object cfg2 = Target_Object cfg \<and>
     PrimaryKey cfg2 = PrimaryKey cfg \<and>
     Mode cfg2 = (if Mode cfg = [] then FullRefreshMode else Mode cfg) \<and>
     (data_moves (trace (WriteToDb L E cfg df conn)) = [] \<or>
      data_moves (trace (WriteToDb L E cfg df conn)) =
        data_moves (fst (put_data L cfg2 opts conn (fst (r_BulkImportFlow conn))))) \<and>
     (0 < fst (r_BulkImportFlow conn) \<and> err (WriteToDb L E cfg df conn) = None \<longrightarrow>
        data_moves (trace (WriteToDb L E cfg df conn)) =
          data_moves (fst (put_data L cfg2 opts conn (fst (r_BulkImportFlow conn)))) \<and>
        \<not> isl (snd (put_data L cfg2 opts conn (fst (r_BulkImportFlow conn)))) \<and>
        CreateTableIfNotExists (Target_Object cfg) (TableDDL opts)
          \<in> set (trace (WriteToDb L E cfg df conn)))"
  using staged
proof (cases rule: WriteToDb_staged)
  case (failed cfg1 opts c e cfg')
  note P = preamble_Inr[OF failed(1)]
  have "BulkImportFlow tmp \<in> set (fst (stage L E cfg1 opts df conn))"
    using staged by (simp add: failed(4))
  then have e: "e \<noteq> None" using failed(3) by (auto dest: stage_Inl_imported)
  have dm: "data_moves (trace (WriteToDb L E cfg df conn)) = []"
    by (simp add: failed(4) data_moves_append data_moves_stage) (simp add: data_moves_def is_move_def)
  have er: "err (WriteToDb L E cfg df conn) \<noteq> None"
    using e by (simp add: failed(4))
  show ?thesis
    apply (rule exI[of _ cfg1])
    apply (rule exI[of _ opts])
    using P failed(2) dm er by auto
next
  case (imported cfg1 opts)
  let ?cfg2 = "cfg1\<lparr>Target_TmpTableCreated := True\<rparr>"
  let ?n = "fst (r_BulkImportFlow conn)"
  let ?S = "fst (stage L E cfg1 opts df conn)"
  let ?A = "after_import L E ?cfg2 opts df conn ?n"
  note P = preamble_Inr[OF imported(1)]
  have tr: "trace (WriteToDb L E cfg df conn) = ?S @ fst ?A @ [PBarFinish]"
    by (simp add: imported(3) trace_finish fst_emit)
  have er: "err (WriteToDb L E cfg df conn) =
      (case snd ?A of Inl (c, e, cfg') \<Rightarrow> e | Inr u \<Rightarrow> None)"
    by (simp add: imported(3) err_finish snd_emit)
  have dm: "data_moves (trace (WriteToDb L E cfg df conn)) = data_moves (fst ?A)"
    by (simp add: tr data_moves_append data_moves_stage) (simp add: data_moves_def is_move_def)
  have any: "data_moves (fst ?A) = [] \<or>
      data_moves (fst ?A) = data_moves (fst (put_data L ?cfg2 opts conn ?n))"
    by (simp add: data_moves_after_import)
  have ok: "data_moves (fst ?A) = data_moves (fst (put_data L ?cfg2 opts conn ?n)) \<and>
        \<not> isl (snd (put_data L ?cfg2 opts conn ?n)) \<and>
        CreateTableIfNotExists (Target_Object cfg) (TableDDL opts)
          \<in> set (trace (WriteToDb L E cfg df conn))"
    if "0 < ?n" "err (WriteToDb L E cfg df conn) = None"
  proof -
    note O = after_import_ok[OF that(1) that(2)[unfolded er]]
    have "CreateTableIfNotExists (Target_Object ?cfg2) (TableDDL opts)
       \<in> set (fst (prepare_final L ?cfg2 opts conn ?n))"
      using O by (intro prepare_final_creates) simp
    then have "CreateTableIfNotExists (Target_Object cfg) (TableDDL opts)
       \<in> set (trace (WriteToDb L E cfg df conn))"
      using P O by (simp add: tr fst_after_import fst_merge fst_in_final_tx)
    then show ?thesis using O by (simp add: data_moves_after_import)
  qed
  show ?thesis
    apply (rule exI[of _ ?cfg2])
    apply (rule exI[of _ opts])
    using P imported(2) any ok by (simp add: dm PrimaryKey_def)
qed

lemma put_data_moves:
  fixes cfg :: Config
  assumes "n \<noteq> 0"
  shows "((Mode cfg = IncrementalMode \<and> PrimaryKey cfg = []) \<or> Mode cfg = SnapshotMode
           \<or> Mode cfg = FullRefreshMode \<longrightarrow>
            data_moves (fst (put_data L cfg opts conn n)) =
              [InsertFromTemp (TableTmp opts) (Target_Object cfg)]) \<and>
         (Mode cfg = TruncateMode \<longrightarrow>
            data_moves (fst (put_data L cfg opts conn n)) =
              Exec (g_R L (truncate_table_template conn) [(''table'', Target_Object cfg)]) #
              (if r_Exec_truncate conn = None
               then [InsertFromTemp (TableTmp opts) (Target_Object cfg)] else []) \<and>
            (r_Exec_truncate conn \<noteq> None \<longrightarrow> isl (snd (put_data L cfg opts conn n)))) \<and>
         ((Mode cfg = IncrementalMode \<and> PrimaryKey cfg \<noteq> []) \<or> Mode cfg = BackfillMode \<longrightarrow>
            data_moves (fst (put_data L cfg opts conn n)) =
              [Upsert (TableTmp opts) (Target_Object cfg) (PrimaryKey cfg)])"
proof (cases rule: put_data_branches[where n=n and cfg=cfg])
  case zero
  with assms show ?thesis by simp
next
  case swap
  then show ?thesis by (simp add: mode_defs)
next
  case insert
  then show ?thesis
    by (auto simp add: put_data_insert data_moves_def is_move_def mode_defs)
next
  case truncate
  then show ?thesis
    by (auto simp add: put_data_truncate data_moves_def is_move_def mode_defs)
next
  case upsert
  then show ?thesis
    by (auto simp add: put_data_upsert data_moves_def is_move_def mode_defs)
next
  case other
  then show ?thesis
    by (auto simp add: mode_defs)
qed



lemma in_final_tx_returns:
  "\<exists>c e. snd (in_final_tx L E cfg opts df conn n) = Inl (c, e, cfg)"
proof -
  let ?F = "prepare_final L cfg opts conn n" and ?D = "put_data L cfg opts conn n"
  let ?Q = "post_sql L E cfg opts conn n"
  have f: "\<exists>c e. snd ?F = Inl (c, e, cfg)" if "isl (snd ?F)"
    using that prepare_final_Inl[of L cfg opts conn n] by (cases "snd ?F") auto
  have d: "\<exists>c e. snd ?D = Inl (c, e, cfg)" if "isl (snd ?D)"
    using that put_data_Inl[of L cfg opts conn n] by (cases "snd ?D") auto
  have q: "\<exists>c e. snd ?Q = Inl (c, e, cfg)" if "isl (snd ?Q)"
    using that post_sql_Inl[of L E cfg opts conn n] by (cases "snd ?Q") auto
  show ?thesis
    using f d q by (simp add: snd_in_final_tx snd_commit_final)
qed

lemma after_import_returns:
  "\<exists>c e. snd (after_import L E cfg opts df conn n) = Inl (c, e, cfg)"
proof -
  let ?P = "pre_sql L E cfg opts conn n"
  have p: "\<exists>c e. snd ?P = Inl (c, e, cfg)" if "isl (snd ?P)"
    using that pre_sql_Inl[of L E cfg opts conn n] by (cases "snd ?P") auto
  have v: "\<exists>c e. snd (verify cfg opts df conn n) = Inl (c, e, cfg)"
    if "isl (snd (verify cfg opts df conn n))"
    using that by (auto simp add: snd_verify split: if_splits)
  have k: "\<exists>c e. snd (checksum E cfg opts df conn n) = Inl (c, e, cfg)"
    if "isl (snd (checksum E cfg opts df conn n))"
    using that by (auto simp add: snd_checksum split: if_splits)
  have m: "\<exists>c e. snd (merge L E cfg opts df conn n) = Inl (c, e, cfg)"
    using in_final_tx_returns[of L E cfg opts df conn n]
    by (cases "r_BeginContext_final conn") (simp_all add: snd_merge)
  show ?thesis
    using p v k m by (simp add: snd_after_import)
qed

text \<open>The configuration a call leaves behind keeps the target options the preamble wrote.\<close>

lemma WriteToDb_cfg_out:
  "snd (preamble L E cfg df conn) = Inr (cfg1, opts) \<Longrightarrow>
     Target_Options (cfg_out (WriteToDb L E cfg df conn)) = Some opts"
proof -
  assume pre: "snd (preamble L E cfg df conn) = Inr (cfg1, opts)"
  note P = preamble_Inr[OF pre]
  show ?thesis
  proof (cases "snd (stage L E cfg1 opts df conn)")
    case (Inl r)
    obtain c e cfg' where r: "r = (c, e, cfg')" by (cases r) auto
    from Inl r stage_Inl[of L E cfg1 opts df conn c e cfg'] P
    show ?thesis using pre by (simp add: WriteToDb_stage_returns)
  next
    case (Inr x)
    have x: "x = (fst (r_BulkImportFlow conn), cfg1\<lparr>Target_TmpTableCreated := True\<rparr>)"
      using Inr by (rule stage_Inr)
    obtain c e where
      "snd (after_import L E (cfg1\<lparr>Target_TmpTableCreated := True\<rparr>) opts df conn
         (fst (r_BulkImportFlow conn))) = Inl (c, e, cfg1\<lparr>Target_TmpTableCreated := True\<rparr>)"
      using after_import_returns by blast
    then show ?thesis
      using pre Inr x P by (simp add: WriteToDb_imported finish_def deferred_def emit_def)
  qed
qed

section \<open>A fact about lists\<close>

lemma length_filter_eq: "length (filter P xs) = length xs \<longleftrightarrow> list_all P xs"
proof (induction xs)
  case Nil
  then show ?case by simp
next
  case (Cons x xs)
  then show ?case using length_filter_le[of P xs] by (auto simp del: length_filter_le)
qed

section \<open>The claims about \<open>WriteToDb\<close>\<close>

text \<open>
  C9. A call whose dataflow has no columns returns the error "no stream columns
  detected" at once: the only event of the call is the deferred \<open>PBar.Finish\<close>, so no
  temp table is dropped or created and nothing is sent to the target store. The row
  count returned is 0 and the configuration is as it was passed.
\<close>

theorem WriteToDb_no_columns:
  "df_Columns df = [] \<Longrightarrow>
     WriteToDb L E cfg df conn =
       \<lparr>cnt = 0, err = Some (Error ''no stream columns detected''),
        trace = [PBarFinish], cfg_out = cfg\<rparr>"
  by (rule WriteToDb_preamble_returns) (simp add: preamble_def returns_def)

theorem WriteToDb_no_columns_witness:
  "df_Columns (ex_df\<lparr>df_Columns := []\<rparr>) = [] \<and>
   WriteToDb ex_Lib ex_Env ex_cfg (ex_df\<lparr>df_Columns := []\<rparr>) ex_conn =
     \<lparr>cnt = 0, err = Some (Error ''no stream columns detected''),
      trace = [PBarFinish], cfg_out = ex_cfg\<rparr>"
proof -
  have h: "df_Columns (ex_df\<lparr>df_Columns := []\<rparr>) = []" by simp
  from WriteToDb_no_columns [OF h] h show ?thesis by simp
qed




text \<open>
  C2. Take a call that staged into the temp table \<open>tmp\<close> and imported at least one row.
  Its data-moving events (\<open>InsertFromTemp\<close>, \<open>Exec\<close>, \<open>Upsert\<close>, \<open>SwapTable\<close>, in the order
  of the trace) are fixed by the mode and the declared primary key:

  \<^item> incremental with no primary key, snapshot and full-refresh (an empty mode counts as
    full-refresh): the one insert from \<open>tmp\<close> into the final table;
  \<^item> truncate: the truncate statement on the final table, then the insert from \<open>tmp\<close>;
  \<^item> incremental or backfill with a primary key: the one upsert from \<open>tmp\<close> into the
    final table with the declared key columns.

  A call that returns no error has made exactly these moves; a call that returns an
  error has made a prefix of them (none when it stopped before line 411). Which rows an
  upsert updates and which it inserts is decided by the statement the store runs: for
  Snowflake, \<open>GenerateUpsertSQL\<close> fills its template with \<open>tmp\<close> as the source table,
  the final table as the target, and the expressions built from the key columns; the
  template merges into the target using the source, joins them \<open>ON\<close> the equality of
  the keys, has the branch \<open>WHEN MATCHED THEN UPDATE SET\<close> and the branch \<open>WHEN NOT
  MATCHED THEN INSERT\<close>.
\<close>

theorem WriteToDb_merge_strategy:
  assumes staged: "BulkImportFlow tmp \<in> set (trace (WriteToDb L E cfg df conn))"
    and positive: "0 < fst (r_BulkImportFlow conn)"
  shows
    "((Mode cfg = IncrementalMode \<and> PrimaryKey cfg = []) \<or> Mode cfg = SnapshotMode
        \<or> Mode cfg = FullRefreshMode \<or> Mode cfg = [] \<longrightarrow>
       data_moves (trace (WriteToDb L E cfg df conn))
         \<in> {[], [InsertFromTemp tmp (Target_Object cfg)]} \<and>
       (err (WriteToDb L E cfg df conn) = None \<longrightarrow>
          data_moves (trace (WriteToDb L E cfg df conn)) =
            [InsertFromTemp tmp (Target_Object cfg)])) \<and>
     (Mode cfg = TruncateMode \<longrightarrow>
       data_moves (trace (WriteToDb L E cfg df conn))
         \<in> {[],
            [Exec (g_R L (truncate_table_template conn) [(''table'', Target_Object cfg)])],
            [Exec (g_R L (truncate_table_template conn) [(''table'', Target_Object cfg)]),
             InsertFromTemp tmp (Target_Object cfg)]} \<and>
       (err (WriteToDb L E cfg df conn) = None \<longrightarrow>
          data_moves (trace (WriteToDb L E cfg df conn)) =
            [Exec (g_R L (truncate_table_template conn) [(''table'', Target_Object cfg)]),
             InsertFromTemp tmp (Target_Object cfg)])) \<and>
     ((Mode cfg = IncrementalMode \<or> Mode cfg = BackfillMode) \<and> PrimaryKey cfg \<noteq> [] \<longrightarrow>
       data_moves (trace (WriteToDb L E cfg df conn))
         \<in> {[], [Upsert tmp (Target_Object cfg) (PrimaryKey cfg)]} \<and>
       (err (WriteToDb L E cfg df conn) = None \<longrightarrow>
          data_moves (trace (WriteToDb L E cfg df conn)) =
            [Upsert tmp (Target_Object cfg) (PrimaryKey cfg)]) \<and>
       (\<forall>gen m. gen tmp (Target_Object cfg) (PrimaryKey cfg) = Inr m \<longrightarrow>
          GenerateUpsertSQL L gen tmp (Target_Object cfg) (PrimaryKey cfg) =
            Inr (g_R L sqlTempl
              [(''src_table'', tmp),
               (''tgt_table'', Target_Object cfg),
               (''src_tgt_pk_equal'', m ''src_tgt_pk_equal''),
               (''set_fields'', m ''set_fields''),
               (''insert_fields'', m ''insert_fields''),
               (''src_fields'', m ''src_fields''),
               (''src_fields_values'', ReplaceAll (m ''placehold_fields'') ''ph.'' ''src.'')]))) \<and>
     Contains sqlTempl ''merge into {tgt_table} tgt'' \<and>
     Contains sqlTempl ''using (select {src_fields} from {src_table}) src'' \<and>
     Contains sqlTempl ''ON ({src_tgt_pk_equal})'' \<and>
     Contains sqlTempl
       (''WHEN MATCHED THEN'' @ [CHR 0x0A, CHR 0x09, CHR 0x09] @ ''UPDATE SET {set_fields}'') \<and>
     Contains sqlTempl
       (''WHEN NOT MATCHED THEN'' @ [CHR 0x0A, CHR 0x09, CHR 0x09] @
        ''INSERT ({insert_fields}) values  ({src_fields_values})'')"
proof -
  let ?n = "fst (r_BulkImportFlow conn)"
  let ?M = "data_moves (trace (WriteToDb L E cfg df conn))"
  from WriteToDb_data_moves[OF staged] obtain cfg2 opts where
    names: "TableTmp opts = tmp" "Target_Object cfg2 = Target_Object cfg"
      "PrimaryKey cfg2 = PrimaryKey cfg"
      "Mode cfg2 = (if Mode cfg = [] then FullRefreshMode else Mode cfg)"
    and any: "?M = [] \<or> ?M = data_moves (fst (put_data L cfg2 opts conn ?n))"
    and ok: "err (WriteToDb L E cfg df conn) = None \<Longrightarrow>
        ?M = data_moves (fst (put_data L cfg2 opts conn ?n)) \<and>
        \<not> isl (snd (put_data L cfg2 opts conn ?n))"
    using positive by blast
  have n: "?n \<noteq> 0" using positive by simp
  note D = put_data_moves[OF n, of cfg2 L opts conn, unfolded names]
  have ins: "?M \<in> {[], [InsertFromTemp tmp (Target_Object cfg)]} \<and>
       (err (WriteToDb L E cfg df conn) = None \<longrightarrow>
          ?M = [InsertFromTemp tmp (Target_Object cfg)])"
    if "(Mode cfg = IncrementalMode \<and> PrimaryKey cfg = []) \<or> Mode cfg = SnapshotMode
        \<or> Mode cfg = FullRefreshMode \<or> Mode cfg = []"
  proof -
    have "data_moves (fst (put_data L cfg2 opts conn ?n)) = [InsertFromTemp tmp (Target_Object cfg)]"
      using that D by (auto simp add: mode_defs split: if_splits)
    then show ?thesis using any ok by auto
  qed
  have trunc: "?M \<in> {[],
            [Exec (g_R L (truncate_table_template conn) [(''table'', Target_Object cfg)])],
            [Exec (g_R L (truncate_table_template conn) [(''table'', Target_Object cfg)]),
             InsertFromTemp tmp (Target_Object cfg)]} \<and>
       (err (WriteToDb L E cfg df conn) = None \<longrightarrow>
          ?M = [Exec (g_R L (truncate_table_template conn) [(''table'', Target_Object cfg)]),
             InsertFromTemp tmp (Target_Object cfg)])"
    if "Mode cfg = TruncateMode"
  proof -
    have m: "Mode cfg \<noteq> []" using that by (simp add: mode_defs)
    have d: "data_moves (fst (put_data L cfg2 opts conn ?n)) =
        Exec (g_R L (truncate_table_template conn) [(''table'', Target_Object cfg)]) #
        (if r_Exec_truncate conn = None then [InsertFromTemp tmp (Target_Object cfg)] else [])"
      and f: "r_Exec_truncate conn \<noteq> None \<Longrightarrow> isl (snd (put_data L cfg2 opts conn ?n))"
      using that m D by simp_all
    show ?thesis using any ok d f by (cases "r_Exec_truncate conn = None") auto
  qed
  have ups: "?M \<in> {[], [Upsert tmp (Target_Object cfg) (PrimaryKey cfg)]} \<and>
       (err (WriteToDb L E cfg df conn) = None \<longrightarrow>
          ?M = [Upsert tmp (Target_Object cfg) (PrimaryKey cfg)])"
    if "(Mode cfg = IncrementalMode \<or> Mode cfg = BackfillMode) \<and> PrimaryKey cfg \<noteq> []"
  proof -
    have m: "Mode cfg \<noteq> []" using that by (auto simp add: mode_defs)
    have "data_moves (fst (put_data L cfg2 opts conn ?n)) =
        [Upsert tmp (Target_Object cfg) (PrimaryKey cfg)]"
      using that m D by auto
    then show ?thesis using any ok by auto
  qed
  have gen: "GenerateUpsertSQL L gen tmp (Target_Object cfg) (PrimaryKey cfg) =
            Inr (g_R L sqlTempl
              [(''src_table'', tmp),
               (''tgt_table'', Target_Object cfg),
               (''src_tgt_pk_equal'', m ''src_tgt_pk_equal''),
               (''set_fields'', m ''set_fields''),
               (''insert_fields'', m ''insert_fields''),
               (''src_fields'', m ''src_fields''),
               (''src_fields_values'', ReplaceAll (m ''placehold_fields'') ''ph.'' ''src.'')])"
    if "gen tmp (Target_Object cfg) (PrimaryKey cfg) = Inr m" for gen m
    using that by (simp add: GenerateUpsertSQL_def)
  have t1: "Contains sqlTempl ''merge into {tgt_table} tgt''"
    and t2: "Contains sqlTempl ''using (select {src_fields} from {src_table}) src''"
    and t3: "Contains sqlTempl ''ON ({src_tgt_pk_equal})''"
    and t4: "Contains sqlTempl
       (''WHEN MATCHED THEN'' @ [CHR 0x0A, CHR 0x09, CHR 0x09] @ ''UPDATE SET {set_fields}'')"
    and t5: "Contains sqlTempl
       (''WHEN NOT MATCHED THEN'' @ [CHR 0x0A, CHR 0x09, CHR 0x09] @
        ''INSERT ({insert_fields}) values  ({src_fields_values})'')"
    by (simp_all add: sqlTempl_def)
  from ins trunc ups gen have
    "((Mode cfg = IncrementalMode \<and> PrimaryKey cfg = []) \<or> Mode cfg = SnapshotMode
        \<or> Mode cfg = FullRefreshMode \<or> Mode cfg = [] \<longrightarrow>
       ?M \<in> {[], [InsertFromTemp tmp (Target_Object cfg)]} \<and>
       (err (WriteToDb L E cfg df conn) = None \<longrightarrow>
          ?M = [InsertFromTemp tmp (Target_Object cfg)])) \<and>
     (Mode cfg = TruncateMode \<longrightarrow>
       ?M \<in> {[],
            [Exec (g_R L (truncate_table_template conn) [(''table'', Target_Object cfg)])],
            [Exec (g_R L (truncate_table_template conn) [(''table'', Target_Object cfg)]),
             InsertFromTemp tmp (Target_Object cfg)]} \<and>
       (err (WriteToDb L E cfg df conn) = None \<longrightarrow>
          ?M = [Exec (g_R L (truncate_table_template conn) [(''table'', Target_Object cfg)]),
             InsertFromTemp tmp (Target_Object cfg)])) \<and>
     ((Mode cfg = IncrementalMode \<or> Mode cfg = BackfillMode) \<and> PrimaryKey cfg \<noteq> [] \<longrightarrow>
       ?M \<in> {[], [Upsert tmp (Target_Object cfg) (PrimaryKey cfg)]} \<and>
       (err (WriteToDb L E cfg df conn) = None \<longrightarrow>
          ?M = [Upsert tmp (Target_Object cfg) (PrimaryKey cfg)]) \<and>
       (\<forall>gen m. gen tmp (Target_Object cfg) (PrimaryKey cfg) = Inr m \<longrightarrow>
          GenerateUpsertSQL L gen tmp (Target_Object cfg) (PrimaryKey cfg) =
            Inr (g_R L sqlTempl
              [(''src_table'', tmp),
               (''tgt_table'', Target_Object cfg),
               (''src_tgt_pk_equal'', m ''src_tgt_pk_equal''),
               (''set_fields'', m ''set_fields''),
               (''insert_fields'', m ''insert_fields''),
               (''src_fields'', m ''src_fields''),
               (''src_fields_values'', ReplaceAll (m ''placehold_fields'') ''ph.'' ''src.'')])))"
    by blast
  with t1 t2 t3 t4 t5 show ?thesis by simp
qed

theorem WriteToDb_merge_strategy_witness:
  "BulkImportFlow ''main.users_TMP'' \<in> set (trace (WriteToDb ex_Lib ex_Env ex_cfg ex_df ex_conn)) \<and>
   0 < fst (r_BulkImportFlow ex_conn) \<and>
   Mode ex_cfg = IncrementalMode \<and> PrimaryKey ex_cfg = [''id''] \<and>
   err (WriteToDb ex_Lib ex_Env ex_cfg ex_df ex_conn) = None \<and>
   data_moves (trace (WriteToDb ex_Lib ex_Env ex_cfg ex_df ex_conn)) =
     [Upsert ''main.users_TMP'' ''main.users'' [''id'']] \<and>
   GenerateUpsertSQL ex_Lib (\<lambda>s t k. Inr (\<lambda>key. key)) ''main.users_TMP'' ''main.users'' [''id''] =
     Inr (g_R ex_Lib sqlTempl
       [(''src_table'', ''main.users_TMP''),
        (''tgt_table'', ''main.users''),
        (''src_tgt_pk_equal'', ''src_tgt_pk_equal''),
        (''set_fields'', ''set_fields''),
        (''insert_fields'', ''insert_fields''),
        (''src_fields'', ''src_fields''),
        (''src_fields_values'', ''placehold_fields'')]) \<and>
   BulkImportFlow ''main.users_TMP''
     \<in> set (trace (WriteToDb ex_Lib ex_Env (ex_cfg\<lparr>Mode := TruncateMode\<rparr>) ex_df ex_conn)) \<and>
   err (WriteToDb ex_Lib ex_Env (ex_cfg\<lparr>Mode := TruncateMode\<rparr>) ex_df ex_conn) = None \<and>
   data_moves (trace (WriteToDb ex_Lib ex_Env (ex_cfg\<lparr>Mode := TruncateMode\<rparr>) ex_df ex_conn)) =
     [Exec ''truncate table main.users'', InsertFromTemp ''main.users_TMP'' ''main.users''] \<and>
   BulkImportFlow ''main.users_TMP''
     \<in> set (trace (WriteToDb ex_Lib ex_Env (ex_cfg\<lparr>Mode := SnapshotMode\<rparr>) ex_df ex_conn)) \<and>
   err (WriteToDb ex_Lib ex_Env (ex_cfg\<lparr>Mode := SnapshotMode\<rparr>) ex_df ex_conn) = None \<and>
   data_moves (trace (WriteToDb ex_Lib ex_Env (ex_cfg\<lparr>Mode := SnapshotMode\<rparr>) ex_df ex_conn)) =
     [InsertFromTemp ''main.users_TMP'' ''main.users'']"
proof -
  let ?trunc = "ex_cfg\<lparr>Mode := TruncateMode\<rparr>"
  let ?snap = "ex_cfg\<lparr>Mode := SnapshotMode\<rparr>"
  have s1: "BulkImportFlow ''main.users_TMP'' \<in> set (trace (WriteToDb ex_Lib ex_Env ex_cfg ex_df ex_conn))"
    and e1: "err (WriteToDb ex_Lib ex_Env ex_cfg ex_df ex_conn) = None"
    by (simp_all add: WriteToDb_defs ex_defs)
  have s2: "BulkImportFlow ''main.users_TMP'' \<in> set (trace (WriteToDb ex_Lib ex_Env ?trunc ex_df ex_conn))"
    and e2: "err (WriteToDb ex_Lib ex_Env ?trunc ex_df ex_conn) = None"
    by (simp_all add: WriteToDb_defs ex_defs)
  have s3: "BulkImportFlow ''main.users_TMP'' \<in> set (trace (WriteToDb ex_Lib ex_Env ?snap ex_df ex_conn))"
    and e3: "err (WriteToDb ex_Lib ex_Env ?snap ex_df ex_conn) = None"
    by (simp_all add: WriteToDb_defs ex_defs)
  have p: "0 < fst (r_BulkImportFlow ex_conn)" by (simp add: ex_conn_def)
  have m: "Mode ex_cfg = IncrementalMode" "PrimaryKey ex_cfg = [''id'']"
    "Target_Object ex_cfg = ''main.users''"
    "Mode ?trunc = TruncateMode" "Mode ?snap = SnapshotMode"
    "Target_Object ?trunc = ''main.users''" "Target_Object ?snap = ''main.users''"
    "PrimaryKey ?trunc = [''id'']" "PrimaryKey ?snap = [''id'']"
    by (simp_all add: ex_cfg_def PrimaryKey_def mode_defs)
  have t: "g_R ex_Lib (truncate_table_template ex_conn) [(''table'', ''main.users'')] =
      ''truncate table main.users''"
    by (simp add: ex_Lib_def ex_conn_def)
  have g: "(\<lambda>s t k. Inr (\<lambda>key. key)) ''main.users_TMP'' ''main.users'' [''id''] =
      (Inr (\<lambda>key. key) :: error + (string \<Rightarrow> string))"
    by simp
  have r: "ReplaceAll ''placehold_fields'' ''ph.'' ''src.'' = ''placehold_fields''"
    by simp
  note W1 = WriteToDb_merge_strategy [OF s1 p, unfolded m]
  note W2 = WriteToDb_merge_strategy [OF s2 p, unfolded m t]
  note W3 = WriteToDb_merge_strategy [OF s3 p, unfolded m]
  have c1: "data_moves (trace (WriteToDb ex_Lib ex_Env ex_cfg ex_df ex_conn)) =
     [Upsert ''main.users_TMP'' ''main.users'' [''id'']]"
    using W1 e1 by simp
  have c1g: "GenerateUpsertSQL ex_Lib (\<lambda>s t k. Inr (\<lambda>key. key)) ''main.users_TMP'' ''main.users'' [''id''] =
     Inr (g_R ex_Lib sqlTempl
       [(''src_table'', ''main.users_TMP''),
        (''tgt_table'', ''main.users''),
        (''src_tgt_pk_equal'', ''src_tgt_pk_equal''),
        (''set_fields'', ''set_fields''),
        (''insert_fields'', ''insert_fields''),
        (''src_fields'', ''src_fields''),
        (''src_fields_values'', ''placehold_fields'')])"
    using W1 g r by simp
  have c2: "data_moves (trace (WriteToDb ex_Lib ex_Env ?trunc ex_df ex_conn)) =
     [Exec ''truncate table main.users'', InsertFromTemp ''main.users_TMP'' ''main.users'']"
    using W2 e2 by simp
  have c3: "data_moves (trace (WriteToDb ex_Lib ex_Env ?snap ex_df ex_conn)) =
     [InsertFromTemp ''main.users_TMP'' ''main.users'']"
    using W3 e3 by simp
  from s1 p m e1 c1 c1g s2 e2 c2 s3 e3 c3 show ?thesis by simp
qed




text \<open>
  C4. Whenever a call compares checksums against a table, that table is the temp table
  the call imported into, the dataflow's row count (the \<open>df.Count()\<close> that line 310
  tests) is at most 10000 and the import returned at least one row. If the comparison
  fails and \<open>ERROR_ON_CHECKSUM_FAILURE\<close> is empty, the call goes on: the very next event
  opens the transaction on the final table. If the comparison fails and
  \<open>ERROR_ON_CHECKSUM_FAILURE\<close> is set, the call returns the comparison's error and never
  opens that transaction.
\<close>

theorem WriteToDb_checksum:
  assumes "CompareChecksums t \<in> set (trace (WriteToDb L E cfg df conn))"
  shows "df_Count df \<le> 10000 \<and> 0 < fst (r_BulkImportFlow conn) \<and>
    BulkImportFlow t \<in> set (trace (WriteToDb L E cfg df conn)) \<and>
    (r_CompareChecksums conn \<noteq> None \<and> ERROR_ON_CHECKSUM_FAILURE E = [] \<longrightarrow>
       (\<exists>pre post. trace (WriteToDb L E cfg df conn) =
          pre @ [CompareChecksums t, BeginContext (Some (txOptions (GetType conn)))] @ post)) \<and>
    (r_CompareChecksums conn \<noteq> None \<and> ERROR_ON_CHECKSUM_FAILURE E \<noteq> [] \<longrightarrow>
       err (WriteToDb L E cfg df conn) = r_CompareChecksums conn \<and>
       (\<forall>e \<in> set (trace (WriteToDb L E cfg df conn)). \<not> begins_final e))"
proof (cases L E cfg df conn rule: WriteToDb_cases)
  case early
  with assms show ?thesis by simp
next
  case (staging cfg1 opts c e cfg')
  with assms show ?thesis by (auto dest: stage_events)
next
  case (imported cfg1 opts)
  let ?cfg2 = "cfg1\<lparr>Target_TmpTableCreated := True\<rparr>"
  let ?n = "fst (r_BulkImportFlow conn)"
  let ?S = "fst (stage L E cfg1 opts df conn)"
  have tr: "trace (WriteToDb L E cfg df conn) = ?S @ fst (after_import L E ?cfg2 opts df conn ?n) @ [PBarFinish]"
    by (simp add: imported trace_finish fst_emit)
  have er: "err (WriteToDb L E cfg df conn) =
      (case snd (after_import L E ?cfg2 opts df conn ?n) of Inl (c, e, cfg') \<Rightarrow> e | Inr u \<Rightarrow> None)"
    by (simp add: imported err_finish snd_emit)
  from assms have mem: "CompareChecksums t \<in> set (fst (after_import L E ?cfg2 opts df conn ?n))"
    by (auto simp add: tr dest: stage_events)
  note A = after_import_checksum[OF mem]
  have c1: "df_Count df \<le> 10000 \<and> 0 < fst (r_BulkImportFlow conn) \<and>
      BulkImportFlow t \<in> set (trace (WriteToDb L E cfg df conn))"
    using A imported(3) by (simp add: tr)
  have c2: "\<exists>pre post. trace (WriteToDb L E cfg df conn) =
          pre @ [CompareChecksums t, BeginContext (Some (txOptions (GetType conn)))] @ post"
    if "r_CompareChecksums conn \<noteq> None" "ERROR_ON_CHECKSUM_FAILURE E = []"
  proof -
    have "\<not> isl (snd (checksum E ?cfg2 opts df conn ?n))"
      using that A by (simp add: snd_checksum)
    then obtain rest where
      "fst (after_import L E ?cfg2 opts df conn ?n) =
         (fst (verify ?cfg2 opts df conn ?n) @ fst (pre_sql L E ?cfg2 opts conn ?n)) @
         CompareChecksums t # BeginContext (Some (txOptions (GetType conn))) # rest"
      using A by (simp add: fst_merge)
    then have "trace (WriteToDb L E cfg df conn) =
       (?S @ fst (verify ?cfg2 opts df conn ?n) @ fst (pre_sql L E ?cfg2 opts conn ?n)) @
       [CompareChecksums t, BeginContext (Some (txOptions (GetType conn)))] @ (rest @ [PBarFinish])"
      by (simp add: tr)
    then show ?thesis by blast
  qed
  have c3: "err (WriteToDb L E cfg df conn) = r_CompareChecksums conn \<and>
       (\<forall>e \<in> set (trace (WriteToDb L E cfg df conn)). \<not> begins_final e)"
    if "r_CompareChecksums conn \<noteq> None" "ERROR_ON_CHECKSUM_FAILURE E \<noteq> []"
  proof -
    have k: "snd (checksum E ?cfg2 opts df conn ?n) = Inl (?n, r_CompareChecksums conn, ?cfg2)"
      using that A by (simp add: snd_checksum)
    show ?thesis
      using A k
      by (auto simp add: tr er fst_verify begins_final_def
          dest: stage_events pre_sql_events)
  qed
  from c1 c2 c3 show ?thesis by blast
qed

theorem WriteToDb_checksum_witness:
  "CompareChecksums ''main.users_TMP''
     \<in> set (trace (WriteToDb ex_Lib ex_Env ex_cfg ex_df
         (ex_conn\<lparr>r_CompareChecksums := Some (Error ''checksum failure'')\<rparr>))) \<and>
   df_Count ex_df \<le> 10000 \<and>
   (\<exists>pre post. trace (WriteToDb ex_Lib ex_Env ex_cfg ex_df
         (ex_conn\<lparr>r_CompareChecksums := Some (Error ''checksum failure'')\<rparr>)) =
      pre @ [CompareChecksums ''main.users_TMP'',
             BeginContext (Some \<lparr>Isolation = LevelDefault, ReadOnly = False\<rparr>)] @ post) \<and>
   err (WriteToDb ex_Lib ex_Env ex_cfg ex_df
         (ex_conn\<lparr>r_CompareChecksums := Some (Error ''checksum failure'')\<rparr>)) = None \<and>
   CompareChecksums ''main.users_TMP''
     \<in> set (trace (WriteToDb ex_Lib (ex_Env\<lparr>ERROR_ON_CHECKSUM_FAILURE := ''1''\<rparr>) ex_cfg ex_df
         (ex_conn\<lparr>r_CompareChecksums := Some (Error ''checksum failure'')\<rparr>))) \<and>
   err (WriteToDb ex_Lib (ex_Env\<lparr>ERROR_ON_CHECKSUM_FAILURE := ''1''\<rparr>) ex_cfg ex_df
         (ex_conn\<lparr>r_CompareChecksums := Some (Error ''checksum failure'')\<rparr>)) =
     Some (Error ''checksum failure'') \<and>
   list_all (\<lambda>e. \<not> begins_final e)
     (trace (WriteToDb ex_Lib (ex_Env\<lparr>ERROR_ON_CHECKSUM_FAILURE := ''1''\<rparr>) ex_cfg ex_df
         (ex_conn\<lparr>r_CompareChecksums := Some (Error ''checksum failure'')\<rparr>)))"
proof -
  let ?conn = "ex_conn\<lparr>r_CompareChecksums := Some (Error ''checksum failure'')\<rparr>"
  let ?strict = "ex_Env\<lparr>ERROR_ON_CHECKSUM_FAILURE := ''1''\<rparr>"
  have tr: "trace (WriteToDb ex_Lib ex_Env ex_cfg ex_df ?conn) =
    [DropTable ''main.users_TMP'', Pause, CreateTableIfNotExists ''main.users_TMP'' [],
     AddCleanupTask ''main.users_TMP'', BeginContext None, Unpause,
     SetProgress ''streaming data'', BulkImportFlow ''main.users_TMP'',
     Commit, PBarFinish, GetCount ''main.users_TMP'', CompareChecksums ''main.users_TMP'',
     BeginContext (Some \<lparr>Isolation = LevelDefault, ReadOnly = False\<rparr>),
     CreateTableIfNotExists ''main.users'' [],
     AddMissingColumns \<lparr>Tbl_Schema = [], Tbl_Name = ''main.users''\<rparr>,
     Upsert ''main.users_TMP'' ''main.users'' [''id''],
     Commit, Rollback, PBarFinish]"
    by (simp add: WriteToDb_defs ex_defs)
  have er: "err (WriteToDb ex_Lib ex_Env ex_cfg ex_df ?conn) = None"
    by (simp add: WriteToDb_defs ex_defs)
  have tr2: "trace (WriteToDb ex_Lib ?strict ex_cfg ex_df ?conn) =
    [DropTable ''main.users_TMP'', Pause, CreateTableIfNotExists ''main.users_TMP'' [],
     AddCleanupTask ''main.users_TMP'', BeginContext None, Unpause,
     SetProgress ''streaming data'', BulkImportFlow ''main.users_TMP'',
     Commit, PBarFinish, GetCount ''main.users_TMP'', CompareChecksums ''main.users_TMP'',
     PBarFinish]"
    by (simp add: WriteToDb_defs ex_defs)
  have h1: "CompareChecksums ''main.users_TMP'' \<in> set (trace (WriteToDb ex_Lib ex_Env ex_cfg ex_df ?conn))"
    by (simp add: tr)
  have h2: "CompareChecksums ''main.users_TMP''
      \<in> set (trace (WriteToDb ex_Lib ?strict ex_cfg ex_df ?conn))"
    by (simp add: tr2)
  have p: "r_CompareChecksums ?conn = Some (Error ''checksum failure'')"
    "ERROR_ON_CHECKSUM_FAILURE ex_Env = []" "ERROR_ON_CHECKSUM_FAILURE ?strict = ''1''"
    "GetType ?conn = TypeDbSnowflake"
    by (simp_all add: ex_Env_def ex_conn_def)
  from WriteToDb_checksum [OF h1] WriteToDb_checksum [OF h2] h1 h2 p er show ?thesis
    by (simp add: list_all_iff txOptions_def)
qed




text \<open>
  C6. Take a call whose target options name no temp table. If the dataflow has no column
  or the final table's name does not parse, the call returns an error before any event
  on the store. Otherwise, with \<open>t\<close> the parsed name of the final table, the temp table's
  name is the full name of \<open>t\<close> with its \<open>Name\<close> extended: \<open>_TMP\<close> is appended when the
  store upper-cases names and \<open>_tmp\<close> otherwise; for Oracle, and only for Oracle, the name
  is first cut to its first 24 characters and the suffix is followed by the two random
  characters, cased as the store cases names. That name is written back into the
  configuration, it is the table the call drops first, and every import of the call
  goes into it.
\<close>

theorem WriteToDb_tmp_table_name:
  assumes topts: "Target_Options cfg = Some opts0"
    and none: "TableTmp opts0 = []"
  shows
    "(df_Columns df = [] \<or> isl (ParseTableName L (Target_Object cfg) (GetType conn)) \<longrightarrow>
        trace (WriteToDb L E cfg df conn) = [PBarFinish] \<and>
        err (WriteToDb L E cfg df conn) \<noteq> None) \<and>
     (df_Columns df \<noteq> [] \<and> ParseTableName L (Target_Object cfg) (GetType conn) = Inr t \<longrightarrow>
        Target_Options (cfg_out (WriteToDb L E cfg df conn)) =
          Some (opts0\<lparr>TableTmp := FullName L (t\<lparr>Tbl_Name :=
            (if GetType conn = TypeDbOracle then take 24 (Tbl_Name t) else Tbl_Name t)
            @ (if DBNameUpperCase L (GetType conn) then ''_TMP'' else ''_tmp'')
            @ (if GetType conn = TypeDbOracle
               then (if DBNameUpperCase L (GetType conn)
                     then ToUpper (RandString_numeric E @ RandString_alnum E)
                     else ToLower (RandString_numeric E @ RandString_alnum E))
               else [])\<rparr>)\<rparr>) \<and>
        (\<exists>rest. trace (WriteToDb L E cfg df conn) =
          DropTable (FullName L (t\<lparr>Tbl_Name :=
            (if GetType conn = TypeDbOracle then take 24 (Tbl_Name t) else Tbl_Name t)
            @ (if DBNameUpperCase L (GetType conn) then ''_TMP'' else ''_tmp'')
            @ (if GetType conn = TypeDbOracle
               then (if DBNameUpperCase L (GetType conn)
                     then ToUpper (RandString_numeric E @ RandString_alnum E)
                     else ToLower (RandString_numeric E @ RandString_alnum E))
               else [])\<rparr>)) # rest) \<and>
        (\<forall>tmp. BulkImportFlow tmp \<in> set (trace (WriteToDb L E cfg df conn)) \<longrightarrow>
          tmp = FullName L (t\<lparr>Tbl_Name :=
            (if GetType conn = TypeDbOracle then take 24 (Tbl_Name t) else Tbl_Name t)
            @ (if DBNameUpperCase L (GetType conn) then ''_TMP'' else ''_tmp'')
            @ (if GetType conn = TypeDbOracle
               then (if DBNameUpperCase L (GetType conn)
                     then ToUpper (RandString_numeric E @ RandString_alnum E)
                     else ToLower (RandString_numeric E @ RandString_alnum E))
               else [])\<rparr>)))"
proof (intro conjI impI)
  assume a: "df_Columns df = [] \<or> isl (ParseTableName L (Target_Object cfg) (GetType conn))"
  have "\<exists>e. snd (preamble L E cfg df conn) = Inl (0, Some e, cfg)"
  proof (cases "df_Columns df = []")
    case True
    then show ?thesis by (simp add: preamble_def step_defs)
  next
    case False
    with a obtain x where "ParseTableName L (Target_Object cfg) (GetType conn) = Inl x"
      by (cases "ParseTableName L (Target_Object cfg) (GetType conn)") auto
    then show ?thesis
      using False topts none by (simp add: preamble_def step_defs tmp_table_name_def)
  qed
  then obtain e where "snd (preamble L E cfg df conn) = Inl (0, Some e, cfg)" by blast
  then have "WriteToDb L E cfg df conn =
      \<lparr>cnt = 0, err = Some e, trace = [PBarFinish], cfg_out = cfg\<rparr>"
    by (rule WriteToDb_preamble_returns)
  then show "trace (WriteToDb L E cfg df conn) = [PBarFinish]"
    and "err (WriteToDb L E cfg df conn) \<noteq> None"
    by simp_all
next
  let ?name = "FullName L (t\<lparr>Tbl_Name :=
        (if GetType conn = TypeDbOracle then take 24 (Tbl_Name t) else Tbl_Name t)
        @ (if DBNameUpperCase L (GetType conn) then ''_TMP'' else ''_tmp'')
        @ (if GetType conn = TypeDbOracle
           then (if DBNameUpperCase L (GetType conn)
                 then ToUpper (RandString_numeric E @ RandString_alnum E)
                 else ToLower (RandString_numeric E @ RandString_alnum E))
           else [])\<rparr>)"
  assume a: "df_Columns df \<noteq> [] \<and> ParseTableName L (Target_Object cfg) (GetType conn) = Inr t"
  have n: "tmp_table_name L E (GetType conn) (Target_Object cfg) = Inr ?name"
    using a by (simp add: tmp_table_name_def tmp_table_def Let_def)
  obtain cfg1 where pre: "snd (preamble L E cfg df conn) = Inr (cfg1, opts0\<lparr>TableTmp := ?name\<rparr>)"
    using a topts none n by (simp add: preamble_def step_defs Let_def)
  show "Target_Options (cfg_out (WriteToDb L E cfg df conn)) = Some (opts0\<lparr>TableTmp := ?name\<rparr>)"
    using pre by (rule WriteToDb_cfg_out)
  obtain rest where st: "fst (stage L E cfg1 (opts0\<lparr>TableTmp := ?name\<rparr>) df conn) = DropTable ?name # rest"
    using stage_head[of L E cfg1 "opts0\<lparr>TableTmp := ?name\<rparr>" df conn] by auto
  show "\<exists>rest. trace (WriteToDb L E cfg df conn) = DropTable ?name # rest"
  proof (cases "snd (stage L E cfg1 (opts0\<lparr>TableTmp := ?name\<rparr>) df conn)")
    case (Inl r)
    obtain c e cfg' where "r = (c, e, cfg')" by (cases r) auto
    with Inl pre st show ?thesis
      by (simp add: WriteToDb_stage_returns)
  next
    case (Inr x)
    obtain n cfg2 where "x = (n, cfg2)" by (cases x) auto
    with Inr pre st show ?thesis
      by (simp add: WriteToDb_imported trace_finish fst_emit)
  qed
  show "\<forall>tmp. BulkImportFlow tmp \<in> set (trace (WriteToDb L E cfg df conn)) \<longrightarrow> tmp = ?name"
  proof (intro allI impI)
    fix tmp
    assume "BulkImportFlow tmp \<in> set (trace (WriteToDb L E cfg df conn))"
    then show "tmp = ?name"
    proof (cases rule: WriteToDb_staged)
      case (failed cfg1' opts c e cfg')
      with pre show ?thesis by simp
    next
      case (imported cfg1' opts)
      with pre show ?thesis by simp
    qed
  qed
qed

theorem WriteToDb_tmp_table_name_witness:
  "Target_Options ex_cfg = Some ex_opts \<and> TableTmp ex_opts = [] \<and>
   df_Columns ex_df \<noteq> [] \<and>
   ParseTableName ex_Lib (Target_Object ex_cfg) (GetType ex_conn) =
     Inr \<lparr>Tbl_Schema = [], Tbl_Name = ''main.users''\<rparr> \<and>
   Target_Options (cfg_out (WriteToDb ex_Lib ex_Env ex_cfg ex_df ex_conn)) =
     Some (ex_opts\<lparr>TableTmp := ''main.users_TMP''\<rparr>) \<and>
   (\<exists>rest. trace (WriteToDb ex_Lib ex_Env ex_cfg ex_df ex_conn) =
      DropTable ''main.users_TMP'' # rest) \<and>
   ParseTableName ex_Lib (Target_Object ex_cfg) (GetType (ex_conn\<lparr>GetType := TypeDbOracle\<rparr>)) =
     Inr \<lparr>Tbl_Schema = [], Tbl_Name = ''main.users''\<rparr> \<and>
   Target_Options (cfg_out (WriteToDb ex_Lib ex_Env ex_cfg ex_df
       (ex_conn\<lparr>GetType := TypeDbOracle\<rparr>))) =
     Some (ex_opts\<lparr>TableTmp := ''main.users_TMP7Q''\<rparr>) \<and>
   (\<exists>rest. trace (WriteToDb ex_Lib ex_Env ex_cfg ex_df (ex_conn\<lparr>GetType := TypeDbOracle\<rparr>)) =
      DropTable ''main.users_TMP7Q'' # rest) \<and>
   trace (WriteToDb ex_Lib ex_Env ex_cfg (ex_df\<lparr>df_Columns := []\<rparr>) ex_conn) = [PBarFinish] \<and>
   err (WriteToDb ex_Lib ex_Env ex_cfg (ex_df\<lparr>df_Columns := []\<rparr>) ex_conn) \<noteq> None"
proof -
  let ?ora = "ex_conn\<lparr>GetType := TypeDbOracle\<rparr>"
  have h1: "Target_Options ex_cfg = Some ex_opts" by (simp add: ex_cfg_def)
  have h2: "TableTmp ex_opts = []" by (simp add: ex_opts_def)
  have c: "df_Columns ex_df \<noteq> []" "df_Columns (ex_df\<lparr>df_Columns := []\<rparr>) = []"
    by (simp_all add: ex_df_def)
  have p: "ParseTableName ex_Lib (Target_Object ex_cfg) (GetType ex_conn) =
     Inr \<lparr>Tbl_Schema = [], Tbl_Name = ''main.users''\<rparr>"
    "ParseTableName ex_Lib (Target_Object ex_cfg) (GetType ?ora) =
     Inr \<lparr>Tbl_Schema = [], Tbl_Name = ''main.users''\<rparr>"
    by (simp_all add: ex_Lib_def ex_cfg_def)
  have n: "FullName ex_Lib (\<lparr>Tbl_Schema = [], Tbl_Name = ''main.users''\<rparr>\<lparr>Tbl_Name :=
        (if GetType ex_conn = TypeDbOracle
         then take 24 (Tbl_Name \<lparr>Tbl_Schema = [], Tbl_Name = ''main.users''\<rparr>)
         else Tbl_Name \<lparr>Tbl_Schema = [], Tbl_Name = ''main.users''\<rparr>)
        @ (if DBNameUpperCase ex_Lib (GetType ex_conn) then ''_TMP'' else ''_tmp'')
        @ (if GetType ex_conn = TypeDbOracle
           then (if DBNameUpperCase ex_Lib (GetType ex_conn)
                 then ToUpper (RandString_numeric ex_Env @ RandString_alnum ex_Env)
                 else ToLower (RandString_numeric ex_Env @ RandString_alnum ex_Env))
           else [])\<rparr>) = ''main.users_TMP''"
    by (simp add: ex_Lib_def ex_conn_def)
  have q: "upper_char CHR ''7'' = CHR ''7''" "upper_char CHR ''q'' = CHR ''Q''"
    by code_simp+
  have no: "FullName ex_Lib (\<lparr>Tbl_Schema = [], Tbl_Name = ''main.users''\<rparr>\<lparr>Tbl_Name :=
        (if GetType ?ora = TypeDbOracle
         then take 24 (Tbl_Name \<lparr>Tbl_Schema = [], Tbl_Name = ''main.users''\<rparr>)
         else Tbl_Name \<lparr>Tbl_Schema = [], Tbl_Name = ''main.users''\<rparr>)
        @ (if DBNameUpperCase ex_Lib (GetType ?ora) then ''_TMP'' else ''_tmp'')
        @ (if GetType ?ora = TypeDbOracle
           then (if DBNameUpperCase ex_Lib (GetType ?ora)
                 then ToUpper (RandString_numeric ex_Env @ RandString_alnum ex_Env)
                 else ToLower (RandString_numeric ex_Env @ RandString_alnum ex_Env))
           else [])\<rparr>) = ''main.users_TMP7Q''"
    using q by (simp add: ex_Lib_def ex_Env_def ToUpper_def)
  note A = WriteToDb_tmp_table_name [OF h1 h2, where df = ex_df and L = ex_Lib
      and conn = ex_conn and t = "\<lparr>Tbl_Schema = [], Tbl_Name = ''main.users''\<rparr>"
      and E = ex_Env, unfolded n]
  note B = WriteToDb_tmp_table_name [OF h1 h2, where df = ex_df and L = ex_Lib
      and conn = ?ora and t = "\<lparr>Tbl_Schema = [], Tbl_Name = ''main.users''\<rparr>"
      and E = ex_Env, unfolded no]
  note C = WriteToDb_tmp_table_name [OF h1 h2, where df = "ex_df\<lparr>df_Columns := []\<rparr>"
      and L = ex_Lib and conn = ex_conn
      and t = "\<lparr>Tbl_Schema = [], Tbl_Name = ''main.users''\<rparr>" and E = ex_Env]
  from A B C h1 h2 c p show ?thesis by simp
qed




section \<open>The claims about \<open>DetermineType\<close> and \<open>ReadFromDB\<close>\<close>

text \<open>
  C7. \<open>DetermineType\<close> reads nothing but the configuration (it is a function of it: no
  connection, no file, no statement), and:

  \<^item> a mode that is neither empty nor one of the five literals gives the error "must
    specify valid mode ...", no job type, and leaves the configuration as it was;
  \<^item> an empty mode is replaced by full-refresh and is not rejected as invalid;
  \<^item> incremental mode, for a source that is neither BigTable nor a file, with an empty
    update key and no primary key gives the error "must specify value for 'update_key'
    and/or 'primary_key' ...";
  \<^item> backfill mode gives one of its three errors (keys missing, range missing, range
    not made of two parts around one comma) unless the update key, the primary key and
    such a range are all there; when they all are, none of these errors is returned.
\<close>

theorem DetermineType_rejects:
  "(Mode cfg \<noteq> [] \<and> \<not> validMode (Mode cfg) \<longrightarrow>
      DetermineType L cfg = (NoJobType, Some err_valid_mode, cfg)) \<and>
   (Mode cfg = [] \<longrightarrow>
      Mode (snd (snd (DetermineType L cfg))) = FullRefreshMode \<and>
      fst (snd (DetermineType L cfg)) \<noteq> Some err_valid_mode) \<and>
   (Mode cfg = IncrementalMode \<and> Conn_Type (SrcConn cfg) \<noteq> TypeDbBigTable \<and>
    \<not> sourceIsFile L cfg \<and> Source_UpdateKey cfg = [] \<and> PrimaryKey cfg = [] \<longrightarrow>
      DetermineType L cfg = (NoJobType, Some err_incremental_keys, cfg)) \<and>
   (Mode cfg = BackfillMode \<and>
    \<not> (Source_UpdateKey cfg \<noteq> [] \<and> PrimaryKey cfg \<noteq> [] \<and>
       (\<exists>so rng. Source_Options cfg = Some so \<and> Range so = Some rng \<and>
          length (Split rng CHR '','') = 2)) \<longrightarrow>
      fst (DetermineType L cfg) = NoJobType \<and>
      fst (snd (DetermineType L cfg)) \<in>
        {Some err_backfill_keys, Some err_backfill_range, Some err_backfill_range_value} \<and>
      snd (snd (DetermineType L cfg)) = cfg) \<and>
   (Mode cfg = BackfillMode \<and> Source_UpdateKey cfg \<noteq> [] \<and> PrimaryKey cfg \<noteq> [] \<and>
    Source_Options cfg = Some so \<and> Range so = Some rng \<and> length (Split rng CHR '','') = 2 \<longrightarrow>
      fst (snd (DetermineType L cfg)) \<notin>
        {Some err_valid_mode, Some err_backfill_keys, Some err_backfill_range,
         Some err_backfill_range_value})"
proof (intro conjI impI)
  assume "Mode cfg \<noteq> [] \<and> \<not> validMode (Mode cfg)"
  then show "DetermineType L cfg = (NoJobType, Some err_valid_mode, cfg)"
    by (simp add: DetermineType_def Let_def)
next
  assume m: "Mode cfg = []"
  have v: "validMode FullRefreshMode" by (simp add: validMode_def)
  have k: "mode_keys L (cfg\<lparr>Mode := FullRefreshMode\<rparr>) = Inr (cfg\<lparr>Mode := FullRefreshMode\<rparr>)"
    by (simp add: mode_keys_def mode_defs)
  show "Mode (snd (snd (DetermineType L cfg))) = FullRefreshMode"
    using m v k by (simp add: DetermineType_def Let_def split: option.splits)
  show "fst (snd (DetermineType L cfg)) \<noteq> Some err_valid_mode"
    using m v k by (simp add: DetermineType_def Let_def err_defs split: option.splits)
next
  assume a: "Mode cfg = IncrementalMode \<and> Conn_Type (SrcConn cfg) \<noteq> TypeDbBigTable \<and>
    \<not> sourceIsFile L cfg \<and> Source_UpdateKey cfg = [] \<and> PrimaryKey cfg = []"
  then have "mode_keys L cfg = Inl err_incremental_keys"
    by (simp add: mode_keys_def)
  with a show "DetermineType L cfg = (NoJobType, Some err_incremental_keys, cfg)"
    by (simp add: DetermineType_def Let_def validMode_def mode_defs)
next
  assume a: "Mode cfg = BackfillMode \<and>
    \<not> (Source_UpdateKey cfg \<noteq> [] \<and> PrimaryKey cfg \<noteq> [] \<and>
       (\<exists>so rng. Source_Options cfg = Some so \<and> Range so = Some rng \<and>
          length (Split rng CHR '','') = 2))"
  then have k: "mode_keys L cfg \<in>
      {Inl err_backfill_keys, Inl err_backfill_range, Inl err_backfill_range_value}"
    by (auto simp add: mode_keys_def mode_defs split: option.splits)
  have v: "validMode (Mode cfg)" "Mode cfg \<noteq> []"
    using a by (simp_all add: validMode_def mode_defs)
  show "fst (DetermineType L cfg) = NoJobType"
    using k v by (auto simp add: DetermineType_def Let_def)
  show "fst (snd (DetermineType L cfg)) \<in>
        {Some err_backfill_keys, Some err_backfill_range, Some err_backfill_range_value}"
    using k v by (auto simp add: DetermineType_def Let_def)
  show "snd (snd (DetermineType L cfg)) = cfg"
    using k v by (auto simp add: DetermineType_def Let_def)
next
  assume a: "Mode cfg = BackfillMode \<and> Source_UpdateKey cfg \<noteq> [] \<and> PrimaryKey cfg \<noteq> [] \<and>
    Source_Options cfg = Some so \<and> Range so = Some rng \<and> length (Split rng CHR '','') = 2"
  then have k: "mode_keys L cfg = Inr cfg"
    by (simp add: mode_keys_def mode_defs)
  have v: "validMode (Mode cfg)" "Mode cfg \<noteq> []"
    using a by (simp_all add: validMode_def mode_defs)
  have "fst (snd (DetermineType L cfg)) = None
      \<or> fst (snd (DetermineType L cfg)) = Some (err_invalid_task L cfg)"
    using k v by (simp add: DetermineType_def Let_def split: option.splits)
  moreover have "err_invalid_task L cfg \<notin>
      {err_valid_mode, err_backfill_keys, err_backfill_range, err_backfill_range_value}"
    by (simp add: err_defs Let_def)
  ultimately show "fst (snd (DetermineType L cfg)) \<notin>
        {Some err_valid_mode, Some err_backfill_keys, Some err_backfill_range,
         Some err_backfill_range_value}"
    by auto
qed

theorem DetermineType_rejects_witness:
  "DetermineType ex_Lib (ex_cfg\<lparr>Mode := ''append''\<rparr>) =
     (NoJobType, Some err_valid_mode, ex_cfg\<lparr>Mode := ''append''\<rparr>) \<and>
   Mode (snd (snd (DetermineType ex_Lib (ex_cfg\<lparr>Mode := []\<rparr>)))) = FullRefreshMode \<and>
   DetermineType ex_Lib (ex_cfg\<lparr>Source_PrimaryKeyI := PkNil, Source_UpdateKey := []\<rparr>) =
     (NoJobType, Some err_incremental_keys,
      ex_cfg\<lparr>Source_PrimaryKeyI := PkNil, Source_UpdateKey := []\<rparr>) \<and>
   fst (DetermineType ex_Lib (ex_cfg\<lparr>Mode := BackfillMode,
       Source_Options := Some \<lparr>Range = Some ''2021-01-01''\<rparr>\<rparr>)) = NoJobType \<and>
   fst (snd (DetermineType ex_Lib (ex_cfg\<lparr>Mode := BackfillMode,
       Source_Options := Some \<lparr>Range = Some ''2021-01-01''\<rparr>\<rparr>)))
     \<in> {Some err_backfill_keys, Some err_backfill_range, Some err_backfill_range_value} \<and>
   fst (snd (DetermineType ex_Lib (ex_cfg\<lparr>Mode := BackfillMode,
       Source_Options := Some \<lparr>Range = Some ''2021-01-01,2021-02-01''\<rparr>\<rparr>)))
     \<notin> {Some err_valid_mode, Some err_backfill_keys, Some err_backfill_range,
         Some err_backfill_range_value}"
proof -
  let ?bad = "ex_cfg\<lparr>Mode := ''append''\<rparr>"
  let ?empty = "ex_cfg\<lparr>Mode := []\<rparr>"
  let ?nokeys = "ex_cfg\<lparr>Source_PrimaryKeyI := PkNil, Source_UpdateKey := []\<rparr>"
  let ?short = "ex_cfg\<lparr>Mode := BackfillMode,
       Source_Options := Some \<lparr>Range = Some ''2021-01-01''\<rparr>\<rparr>"
  let ?full = "ex_cfg\<lparr>Mode := BackfillMode,
       Source_Options := Some \<lparr>Range = Some ''2021-01-01,2021-02-01''\<rparr>\<rparr>"
  have a: "Mode ?bad \<noteq> [] \<and> \<not> validMode (Mode ?bad)"
    by (simp add: validMode_def mode_defs)
  have b: "Mode ?empty = []" by simp
  have c: "Mode ?nokeys = IncrementalMode \<and> Conn_Type (SrcConn ?nokeys) \<noteq> TypeDbBigTable \<and>
    \<not> sourceIsFile ex_Lib ?nokeys \<and> Source_UpdateKey ?nokeys = [] \<and> PrimaryKey ?nokeys = []"
    by (simp add: ex_cfg_def ex_Lib_def sourceIsFile_def PrimaryKey_def mode_defs)
  have d: "Mode ?short = BackfillMode \<and>
    \<not> (Source_UpdateKey ?short \<noteq> [] \<and> PrimaryKey ?short \<noteq> [] \<and>
       (\<exists>so rng. Source_Options ?short = Some so \<and> Range so = Some rng \<and>
          length (Split rng CHR '','') = 2))"
    by simp
  have e: "Mode ?full = BackfillMode \<and> Source_UpdateKey ?full \<noteq> [] \<and> PrimaryKey ?full \<noteq> [] \<and>
    Source_Options ?full = Some \<lparr>Range = Some ''2021-01-01,2021-02-01''\<rparr> \<and>
    Range \<lparr>Range = Some ''2021-01-01,2021-02-01''\<rparr> = Some ''2021-01-01,2021-02-01'' \<and>
    length (Split ''2021-01-01,2021-02-01'' CHR '','') = 2"
    by (simp add: ex_cfg_def PrimaryKey_def)
  note R1 = DetermineType_rejects [where cfg = ?bad and L = ex_Lib,
      THEN conjunct1, THEN mp, OF a]
  note R2 = DetermineType_rejects [where cfg = ?empty and L = ex_Lib,
      THEN conjunct2, THEN conjunct1, THEN mp, OF b, THEN conjunct1]
  note R3 = DetermineType_rejects [where cfg = ?nokeys and L = ex_Lib,
      THEN conjunct2, THEN conjunct2, THEN conjunct1, THEN mp, OF c]
  note R4 = DetermineType_rejects [where cfg = ?short and L = ex_Lib,
      THEN conjunct2, THEN conjunct2, THEN conjunct2, THEN conjunct1, THEN mp, OF d]
  note R5 = DetermineType_rejects [where cfg = ?full and L = ex_Lib
      and so = "\<lparr>Range = Some ''2021-01-01,2021-02-01''\<rparr>"
      and rng = "''2021-01-01,2021-02-01''",
      THEN conjunct2, THEN conjunct2, THEN conjunct2, THEN conjunct2, THEN mp, OF e]
  show ?thesis
    apply (intro conjI)
        apply (rule R1)
       apply (rule R2)
      apply (rule R3)
     apply (rule R4 [THEN conjunct1])
    apply (rule R4 [THEN conjunct2, THEN conjunct1])
    apply (rule R5)
    done
qed

text \<open>
  C10. In \<open>ReadFromDB\<close>, up to the point where the select list is built:

  \<^item> if the select list has an entry prefixed with \<open>-\<close> and an entry that is not, the
    function returns an error; when the source table and its columns were read without
    error, it is "All specified select columns must be excluded with prefix '-'. Cannot
    do partial exclude.";
  \<^item> if every entry of a non-empty select list is prefixed with \<open>-\<close> and the exclusions
    leave none of the source's columns, the function returns an error; when the source
    table was read without error, it is "All available columns were excluded".

  This holds for every comparison \<open>EqualFold\<close> of column names.
\<close>

theorem ReadFromDB_exclusions:
  "(Source_Select cfg = sel \<and> list_ex (\<lambda>f. HasPrefix f ''-'') sel \<and>
    list_ex (\<lambda>f. \<not> HasPrefix f ''-'') sel \<longrightarrow>
      isl (ReadFromDB_selectFields L EqualFold cfg ty rT rC) \<and>
      (rT = None \<and> rC = Inr cols \<longrightarrow>
         ReadFromDB_selectFields L EqualFold cfg ty rT rC =
           Inl (Error (''All specified select columns must be excluded with prefix ''
                  @ [CHR 0x27] @ ''-'' @ [CHR 0x27] @ ''. Cannot do partial exclude.'')))) \<and>
   (Source_Select cfg = sel \<and> sel \<noteq> [] \<and> list_all (\<lambda>f. HasPrefix f ''-'') sel \<and>
    rC = Inr cols \<and> includedCols EqualFold (GetQualifierQuote L ty) sel cols = [] \<longrightarrow>
      isl (ReadFromDB_selectFields L EqualFold cfg ty rT rC) \<and>
      (rT = None \<longrightarrow>
         ReadFromDB_selectFields L EqualFold cfg ty rT rC =
           Inl (Error ''All available columns were excluded'')))"
proof (intro conjI impI)
  assume a: "Source_Select cfg = sel \<and> list_ex (\<lambda>f. HasPrefix f ''-'') sel \<and>
    list_ex (\<lambda>f. \<not> HasPrefix f ''-'') sel"
  have some: "excluded_fields sel \<noteq> []"
    using a by (auto simp add: excluded_fields_def list_ex_iff filter_empty_conv)
  have notall: "length (excluded_fields sel) \<noteq> length sel"
    using a unfolding excluded_fields_def length_filter_eq
    by (auto simp add: list_ex_iff list_all_iff)
  have ne: "sel \<noteq> []" using a by auto
  show "isl (ReadFromDB_selectFields L EqualFold cfg ty rT rC)"
    using a some notall ne
    by (auto simp add: ReadFromDB_selectFields_def Let_def split: option.splits sum.splits)
  show "ReadFromDB_selectFields L EqualFold cfg ty rT rC =
           Inl (Error (''All specified select columns must be excluded with prefix ''
                  @ [CHR 0x27] @ ''-'' @ [CHR 0x27] @ ''. Cannot do partial exclude.''))"
    if "rT = None \<and> rC = Inr cols"
    using a some notall ne that
    by (simp add: ReadFromDB_selectFields_def Let_def)
next
  assume a: "Source_Select cfg = sel \<and> sel \<noteq> [] \<and> list_all (\<lambda>f. HasPrefix f ''-'') sel \<and>
    rC = Inr cols \<and> includedCols EqualFold (GetQualifierQuote L ty) sel cols = []"
  have ex: "excluded_fields sel = sel"
    using a by (auto simp add: excluded_fields_def list_all_iff)
  show "isl (ReadFromDB_selectFields L EqualFold cfg ty rT rC)"
    using a ex
    by (auto simp add: ReadFromDB_selectFields_def Let_def split: option.splits)
  show "ReadFromDB_selectFields L EqualFold cfg ty rT rC =
           Inl (Error ''All available columns were excluded'')"
    if "rT = None"
    using a ex that by (simp add: ReadFromDB_selectFields_def Let_def)
qed

theorem ReadFromDB_exclusions_witness:
  "ReadFromDB_selectFields ex_Lib (\<lambda>s t. ToLower s = ToLower t)
      (ex_cfg\<lparr>Source_Select := [''-id'', ''name'']\<rparr>) (TypeOther ''postgres'') None
      (Inr (df_Columns ex_df)) =
     Inl (Error (''All specified select columns must be excluded with prefix ''
            @ [CHR 0x27] @ ''-'' @ [CHR 0x27] @ ''. Cannot do partial exclude.'')) \<and>
   includedCols (\<lambda>s t. ToLower s = ToLower t) (GetQualifierQuote ex_Lib (TypeOther ''postgres''))
      [''-ID'', ''-name''] (df_Columns ex_df) = [] \<and>
   ReadFromDB_selectFields ex_Lib (\<lambda>s t. ToLower s = ToLower t)
      (ex_cfg\<lparr>Source_Select := [''-ID'', ''-name'']\<rparr>) (TypeOther ''postgres'') None
      (Inr (df_Columns ex_df)) =
     Inl (Error ''All available columns were excluded'')"
proof -
  let ?fold = "\<lambda>s t. ToLower s = ToLower t"
  let ?part = "ex_cfg\<lparr>Source_Select := [''-id'', ''name'']\<rparr>"
  let ?all = "ex_cfg\<lparr>Source_Select := [''-ID'', ''-name'']\<rparr>"
  have a: "Source_Select ?part = [''-id'', ''name''] \<and>
      list_ex (\<lambda>f. HasPrefix f ''-'') [''-id'', ''name''] \<and>
      list_ex (\<lambda>f. \<not> HasPrefix f ''-'') [''-id'', ''name'']"
    by simp
  have l: "lower_char CHR ''I'' = CHR ''i''" "lower_char CHR ''D'' = CHR ''d''"
    "lower_char CHR ''i'' = CHR ''i''" "lower_char CHR ''d'' = CHR ''d''"
    "lower_char CHR ''n'' = CHR ''n''" "lower_char CHR ''a'' = CHR ''a''"
    "lower_char CHR ''m'' = CHR ''m''" "lower_char CHR ''e'' = CHR ''e''"
    by code_simp+
  have inc: "includedCols ?fold (GetQualifierQuote ex_Lib (TypeOther ''postgres''))
      [''-ID'', ''-name''] (df_Columns ex_df) = []"
    using l by (simp add: includedCols_def ex_Lib_def ex_df_def ToLower_def)
  have b: "Source_Select ?all = [''-ID'', ''-name''] \<and> [''-ID'', ''-name''] \<noteq> [] \<and>
      list_all (\<lambda>f. HasPrefix f ''-'') [''-ID'', ''-name''] \<and>
      (Inr (df_Columns ex_df) :: error + Column list) = Inr (df_Columns ex_df) \<and>
      includedCols ?fold (GetQualifierQuote ex_Lib (TypeOther ''postgres''))
        [''-ID'', ''-name''] (df_Columns ex_df) = []"
    using inc by simp
  have n: "(None :: error option) = None \<and>
      (Inr (df_Columns ex_df) :: error + Column list) = Inr (df_Columns ex_df)"
    by simp
  note R1 = ReadFromDB_exclusions [where cfg = ?part and sel = "[''-id'', ''name'']"
      and L = ex_Lib and EqualFold = ?fold and ty = "TypeOther ''postgres''" and rT = None
      and rC = "Inr (df_Columns ex_df)" and cols = "df_Columns ex_df",
      THEN conjunct1, THEN mp, OF a, THEN conjunct2, THEN mp, OF n]
  note R2 = ReadFromDB_exclusions [where cfg = ?all and sel = "[''-ID'', ''-name'']"
      and L = ex_Lib and EqualFold = ?fold and ty = "TypeOther ''postgres''" and rT = None
      and rC = "Inr (df_Columns ex_df)" and cols = "df_Columns ex_df",
      THEN conjunct2, THEN mp, OF b, THEN conjunct2, THEN mp, OF refl]
  show ?thesis
    apply (intro conjI)
      apply (rule R1)
     apply (rule inc)
    apply (rule R2)
    done
qed

end
